theory Spec2Isabelle
  imports Main "HOL-Library.Word"
begin

section \<open>Kernel types and status codes\<close>

text \<open>
  The driver unit \<^verbatim>\<open>USBPcapHelperFunctions.c\<close> is written against the Windows kernel
  interface. The integer types keep their widths; a device object is an opaque handle.
\<close>

type_synonym NTSTATUS = "32 word"
type_synonym ULONG = "32 word"
type_synonym USHORT = "16 word"
type_synonym UCHAR = "8 word"
type_synonym WCHAR = "16 word"
type_synonym PDEVICE_OBJECT = nat

text \<open>The status codes the unit names, with their values from \<^verbatim>\<open>ntstatus.h\<close>.\<close>

definition STATUS_SUCCESS :: NTSTATUS where
  "STATUS_SUCCESS = 0x00000000"

definition STATUS_PENDING :: NTSTATUS where
  "STATUS_PENDING = 0x00000103"

definition STATUS_INVALID_DEVICE_REQUEST :: NTSTATUS where
  "STATUS_INVALID_DEVICE_REQUEST = 0xC0000010"

definition STATUS_BUFFER_TOO_SMALL :: NTSTATUS where
  "STATUS_BUFFER_TOO_SMALL = 0xC0000023"

definition STATUS_INSUFFICIENT_RESOURCES :: NTSTATUS where
  "STATUS_INSUFFICIENT_RESOURCES = 0xC000009A"

definition STATUS_NOT_SUPPORTED :: NTSTATUS where
  "STATUS_NOT_SUPPORTED = 0xC00000BB"

text \<open>\<^verbatim>\<open>#define NT_SUCCESS(Status) (((NTSTATUS)(Status)) >= 0)\<close>: the status read as a signed
  32-bit value is not negative.\<close>

definition NT_SUCCESS :: "NTSTATUS \<Rightarrow> bool" where
  "NT_SUCCESS Status \<longleftrightarrow> 0 \<le> sint Status"

text \<open>The three wide characters the unit compares with or stores.\<close>

definition hash :: WCHAR where
  "hash = 0x23"

definition blank :: WCHAR where
  "blank = 0x20"

definition NUL :: WCHAR where
  "NUL = 0"

text \<open>A wide-character literal \<^verbatim>\<open>L"..."\<close>, without its terminator.\<close>

definition wide :: "string \<Rightarrow> WCHAR list" where
  "wide s = map (\<lambda>c. of_nat (of_char c)) s"

subsection \<open>USB hub structures\<close>

text \<open>
  Of \<^verbatim>\<open>USB_NODE_INFORMATION\<close> and \<^verbatim>\<open>USB_NODE_CONNECTION_INFORMATION\<close> the unit touches
  the fields below. The two members of the union \<^verbatim>\<open>u\<close> are kept as two fields: the unit
  reads one or the other, chosen by \<^verbatim>\<open>NodeType\<close>.
\<close>

datatype USB_HUB_NODE = UsbHub | UsbMIParent

record USB_NODE_INFORMATION =
  NodeType :: USB_HUB_NODE
  bNumberOfPorts :: UCHAR
  NumberOfInterfaces :: ULONG

record USB_NODE_CONNECTION_INFORMATION =
  ConnectionIndex :: ULONG
  DeviceIsHub :: bool
  DeviceAddress :: USHORT
  ConnectionStatus :: ULONG

section \<open>The kernel as seen by the unit\<close>

text \<open>
  Every kernel service the unit calls is a field of \<open>world\<close>: the answer the kernel and
  the lower drivers give to that call. A request sent down the stack answers with the
  status \<^verbatim>\<open>IoCallDriver\<close> returns at once, with whether the completion event is ever
  set, with the status left in the I/O status block, and with what the completed request
  leaves behind (the relations list or the contents of the in/out buffer).
\<close>

text \<open>
  The requests the unit builds: the relation query, and the two hub control requests, the
  second with the port index its input buffer carries.
\<close>

datatype request =
  IRP_MN_QUERY_DEVICE_RELATIONS
  | IOCTL_USB_GET_NODE_INFORMATION
  | IOCTL_USB_GET_NODE_CONNECTION_INFORMATION ULONG

record 'a completion =
  Immediate :: NTSTATUS
  Signalled :: bool
  Final :: NTSTATUS
  Output :: 'a

record world =
  IoBuildSynchronousFsdRequest :: "PDEVICE_OBJECT \<Rightarrow> bool"
  IoBuildDeviceIoControlRequest :: "request \<Rightarrow> PDEVICE_OBJECT \<Rightarrow> bool"
  QueryDeviceRelations :: "PDEVICE_OBJECT \<Rightarrow> PDEVICE_OBJECT option completion"
  GetNodeInformation :: "PDEVICE_OBJECT \<Rightarrow> USB_HUB_NODE \<Rightarrow> USB_NODE_INFORMATION completion"
  GetNodeConnectionInformation ::
    "PDEVICE_OBJECT \<Rightarrow> USB_NODE_CONNECTION_INFORMATION \<Rightarrow> USB_NODE_CONNECTION_INFORMATION completion"
  IoGetDeviceProperty :: "PDEVICE_OBJECT \<Rightarrow> ULONG \<Rightarrow> bool \<Rightarrow> NTSTATUS \<times> WCHAR list \<times> ULONG"
  ExAllocatePoolWithTag :: "ULONG \<Rightarrow> bool"
  PoolContents :: "nat \<Rightarrow> WCHAR"
  RtlUnicodeStringToInteger :: "WCHAR list \<Rightarrow> ULONG \<Rightarrow> NTSTATUS \<times> ULONG"
  StackContents :: USB_NODE_CONNECTION_INFORMATION

text \<open>
  \<^item> \<open>IoBuildSynchronousFsdRequest\<close>, \<open>IoBuildDeviceIoControlRequest\<close>: whether a request
    object could be built for the request and the target (\<open>False\<close> is the \<^verbatim>\<open>NULL\<close>
    result).
  \<^item> \<open>QueryDeviceRelations\<close>: the answer to a target-device relation query. \<open>Output\<close> is
    \<^verbatim>\<open>ioStatusBlock.Information\<close>: \<open>None\<close> for \<^verbatim>\<open>NULL\<close>, \<open>Some p\<close> for a relations list
    whose \<^verbatim>\<open>Objects[0]\<close> is \<open>p\<close>.
  \<^item> \<open>GetNodeInformation\<close>, \<open>GetNodeConnectionInformation\<close>: the answer of the hub to the
    two control requests, given the input buffer (the node type, the whole connection
    record); \<open>Output\<close> is the buffer after the request.
  \<^item> \<open>IoGetDeviceProperty pdo BufferLength present\<close>: status, the data copied to the
    buffer and \<^verbatim>\<open>ResultLength\<close>, for a call with that buffer length and a buffer that is
    present or \<^verbatim>\<open>NULL\<close>.
  \<^item> \<open>ExAllocatePoolWithTag n\<close>: whether \<open>n\<close> bytes of pool are available;
    \<open>PoolContents\<close>: what a fresh block holds, cell by cell.
  \<^item> \<open>RtlUnicodeStringToInteger s Base\<close>: status and \<^verbatim>\<open>*Value\<close> after converting the
    counted string \<open>s\<close>.
  \<^item> \<open>StackContents\<close>: what the uninitialised local \<^verbatim>\<open>info\<close> of
    \<^verbatim>\<open>USBPcapGetDeviceUSBAddress\<close> holds on entry.
\<close>

text \<open>
  The state the unit changes: the object manager's reference count of each device object,
  and the calls made so far that act on the device stack, the pool and the object manager.
\<close>

datatype allocation = RelationsList | LocationBlock | Null

datatype kcall =
  Dispatch PDEVICE_OBJECT request
  | Wait
  | PropertyQuery PDEVICE_OBJECT ULONG bool
  | PoolAlloc ULONG
  | PoolFree allocation
  | Dereference PDEVICE_OBJECT

record kernel =
  PointerCount :: "PDEVICE_OBJECT \<Rightarrow> int"
  calls :: "kcall list"

definition called :: "kcall \<Rightarrow> kernel \<Rightarrow> kernel" where
  "called c k = k\<lparr>calls := calls k @ [c]\<rparr>"

definition ObReferenceObject :: "PDEVICE_OBJECT \<Rightarrow> kernel \<Rightarrow> kernel" where
  "ObReferenceObject p k = k\<lparr>PointerCount := (PointerCount k)(p := PointerCount k p + 1)\<rparr>"

definition ObDereferenceObject :: "PDEVICE_OBJECT \<Rightarrow> kernel \<Rightarrow> kernel" where
  "ObDereferenceObject p k =
     called (Dereference p) (k\<lparr>PointerCount := (PointerCount k)(p := PointerCount k p - 1)\<rparr>)"

text \<open>
  A call of the unit returns a status together with its out-parameter, or it does not
  return: it touches memory it does not own, or it waits for ever on the completion event
  (\<^verbatim>\<open>KeWaitForSingleObject\<close> is called without a timeout).
\<close>

datatype fault = NullPointer | OutOfBounds | Uninitialised

datatype 'a outcome = Returned NTSTATUS 'a | Fault fault | Blocked

text \<open>
  The dispatch that the three request functions share:
  \<^verbatim>\<open>status = IoCallDriver(dev, irp); if (status == STATUS_PENDING) { KeWaitForSingleObject(...); status = ioStatus.Status; }\<close>.
  \<open>None\<close> is the wait that never ends.
\<close>

definition IoCallDriver :: "PDEVICE_OBJECT \<Rightarrow> request \<Rightarrow> 'a completion \<Rightarrow> kernel \<Rightarrow> NTSTATUS option \<times> kernel" where
  "IoCallDriver dev req c k =
     (let status = Immediate c;
          k1 = called (Dispatch dev req) k
      in if status = STATUS_PENDING
         then (if Signalled c then (Some (Final c), called Wait k1) else (None, called Wait k1))
         else (Some status, k1))"

section \<open>USBPcapGetTargetDevicePdo\<close>

text \<open>
  Source lines 27 to 83. The out-parameter \<^verbatim>\<open>*pdo\<close> is \<open>Some p\<close> when the function stored
  \<open>p\<close> and \<open>None\<close> when it stored nothing. The device object reported by a successful
  query arrives referenced by the bus driver (the source: "You must dereference the PDO
  when it's no longer required"); the relations list is freed.
\<close>

definition USBPcapGetTargetDevicePdo ::
  "world \<Rightarrow> PDEVICE_OBJECT \<Rightarrow> kernel \<Rightarrow> PDEVICE_OBJECT option outcome \<times> kernel" where
  "USBPcapGetTargetDevicePdo w DeviceObject k =
     (if \<not> IoBuildSynchronousFsdRequest w DeviceObject
      then (Returned STATUS_INSUFFICIENT_RESOURCES None, k)
      else
        (case IoCallDriver DeviceObject IRP_MN_QUERY_DEVICE_RELATIONS
                (QueryDeviceRelations w DeviceObject) k of
           (None, k1) \<Rightarrow> (Blocked, k1)
         | (Some status, k1) \<Rightarrow>
             if NT_SUCCESS status
             then (case Output (QueryDeviceRelations w DeviceObject) of
                     None \<Rightarrow> (Fault NullPointer, k1)
                   | Some p \<Rightarrow>
                       (Returned status (Some p),
                        called (PoolFree RelationsList) (ObReferenceObject p k1)))
             else (Returned status None, k1)))"

section \<open>USBPcapGetTargetDevicePort\<close>

text \<open>
  \<^verbatim>\<open>RtlInitUnicodeString(&str, location)\<close> counts the characters before the terminator and
  stores twice that number, held to what the 16-bit \<^verbatim>\<open>Length\<close> field can carry, leaving
  \<^verbatim>\<open>str.Buffer\<close> pointing at \<open>location\<close> itself. A \<^verbatim>\<open>NULL\<close> source gives length 0. The
  result is \<^verbatim>\<open>str.Length\<close> in bytes; \<open>None\<close> is a block without terminator, which the
  count runs off.
\<close>

fun wcslen :: "WCHAR list \<Rightarrow> nat option" where
  "wcslen [] = None"
| "wcslen (c # cs) = (if c = NUL then Some 0 else map_option Suc (wcslen cs))"

definition RtlInitUnicodeString :: "WCHAR list option \<Rightarrow> nat option" where
  "RtlInitUnicodeString SourceString =
     (case SourceString of
        None \<Rightarrow> Some 0
      | Some src \<Rightarrow> map_option (\<lambda>n. min (2 * n) 0xFFFC) (wcslen src))"

text \<open>
  The loop of source lines 152 to 155,
  \<^verbatim>\<open>for (idx = 0; location[idx] != L'#' && idx < length; ++idx) location[idx] = L' ';\<close>
  on a block of \<open>length location\<close> cells; \<open>len\<close> is the source's \<^verbatim>\<open>length\<close>. The condition reads \<^verbatim>\<open>location[idx]\<close> before it
  compares \<open>idx\<close> with \<open>length\<close>; a read outside the block is \<open>None\<close>. The result is the
  final \<open>idx\<close> and the block.
\<close>

function blank_prefix :: "WCHAR list \<Rightarrow> nat \<Rightarrow> nat \<Rightarrow> (nat \<times> WCHAR list) option" where
  "blank_prefix location len idx =
     (if length location \<le> idx then None
      else if location ! idx \<noteq> hash \<and> idx < len
           then blank_prefix (location[idx := blank]) len (Suc idx)
           else Some (idx, location))"
  by pat_completeness auto
termination
  by (relation "measure (\<lambda>(location, len, idx). length location - idx)") auto

declare blank_prefix.simps [simp del]

text \<open>
  Source lines 145 to 158, the parsing step (the spec's \<open>ParsePort\<close>): the counted string
  is set up on the block, the text up to the first \<^verbatim>\<open>#\<close> and the \<^verbatim>\<open>#\<close> itself are
  overwritten with blanks in place, and the counted string, which shares the block, is
  handed to \<^verbatim>\<open>RtlUnicodeStringToInteger\<close> with base 0.
\<close>

definition ParsePort :: "world \<Rightarrow> WCHAR list option \<Rightarrow> ULONG \<Rightarrow> fault + (NTSTATUS \<times> ULONG)" where
  "ParsePort w location len =
     (case RtlInitUnicodeString location of
        None \<Rightarrow> Inl OutOfBounds
      | Some Length \<Rightarrow>
          (case location of
             None \<Rightarrow> Inl NullPointer
           | Some loc \<Rightarrow>
               (case blank_prefix loc (unat len) 0 of
                  None \<Rightarrow> Inl OutOfBounds
                | Some (idx, loc1) \<Rightarrow>
                    if idx < length loc1
                    then Inr (RtlUnicodeStringToInteger w (take (Length div 2) (loc1[idx := blank])) 0)
                    else Inl OutOfBounds)))"

text \<open>
  A block of \<open>n\<close> bytes from the pool holds \<open>n div 2\<close> wide characters; the property query
  copies its data over the front of the block it is given.
\<close>

definition pool_block :: "world \<Rightarrow> ULONG \<Rightarrow> WCHAR list option" where
  "pool_block w n =
     (if ExAllocatePoolWithTag w n then Some (map (PoolContents w) [0..<unat n div 2]) else None)"

definition ExFreePool :: "WCHAR list option \<Rightarrow> kernel \<Rightarrow> kernel" where
  "ExFreePool P k = called (PoolFree (if P = None then Null else LocationBlock)) k"

definition copy_to :: "WCHAR list \<Rightarrow> WCHAR list \<Rightarrow> WCHAR list" where
  "copy_to data buffer = take (length buffer) data @ drop (length data) buffer"

text \<open>
  Source lines 93 to 164. The out-parameter \<^verbatim>\<open>*port\<close> is \<open>Some v\<close> when the conversion
  routine was reached, \<open>None\<close> when nothing was stored.
\<close>

definition USBPcapGetTargetDevicePort ::
  "world \<Rightarrow> PDEVICE_OBJECT \<Rightarrow> kernel \<Rightarrow> ULONG option outcome \<times> kernel" where
  "USBPcapGetTargetDevicePort w pdo_device k =
     (case IoGetDeviceProperty w pdo_device 0 False of
        (status, _, len) \<Rightarrow>
          let k1 = called (PropertyQuery pdo_device 0 False) k in
          if status \<noteq> STATUS_BUFFER_TOO_SMALL
          then (if \<not> NT_SUCCESS status
                then (Returned status None, k1)
                else (Returned STATUS_INVALID_DEVICE_REQUEST None, k1))
          else
            let location = pool_block w len;
                k2 = called (PoolAlloc len) k1
            in (case IoGetDeviceProperty w pdo_device len (location \<noteq> None) of
                  (status, data, len') \<Rightarrow>
                    let location = map_option (copy_to data) location;
                        k3 = called (PropertyQuery pdo_device len (location \<noteq> None)) k2
                    in if \<not> NT_SUCCESS status
                       then (Returned status None, ExFreePool location k3)
                       else (case ParsePort w location len' of
                               Inl f \<Rightarrow> (Fault f, k3)
                             | Inr (status, port) \<Rightarrow>
                                 (Returned status (Some port), ExFreePool location k3))))"

section \<open>USBPcapGetNumberOfPorts\<close>

text \<open>Source lines 167 to 225; \<^verbatim>\<open>info.NodeType = UsbHub\<close> is the input of the request.\<close>

definition USBPcapGetNumberOfPorts ::
  "world \<Rightarrow> PDEVICE_OBJECT \<Rightarrow> kernel \<Rightarrow> ULONG option outcome \<times> kernel" where
  "USBPcapGetNumberOfPorts w parent k =
     (if \<not> IoBuildDeviceIoControlRequest w IOCTL_USB_GET_NODE_INFORMATION parent
      then (Returned STATUS_INSUFFICIENT_RESOURCES None, k)
      else
        (case IoCallDriver parent IOCTL_USB_GET_NODE_INFORMATION
                (GetNodeInformation w parent UsbHub) k of
           (None, k1) \<Rightarrow> (Blocked, k1)
         | (Some status, k1) \<Rightarrow>
             let info = Output (GetNodeInformation w parent UsbHub) in
             if \<not> NT_SUCCESS status
             then (Returned status None, k1)
             else if NodeType info = UsbHub
                  then (Returned status (Some (ucast (bNumberOfPorts info))), k1)
                  else (Returned status (Some (NumberOfInterfaces info)), k1)))"

section \<open>USBPcapGetNodeInformation\<close>

text \<open>
  Source lines 228 to 285. \<^verbatim>\<open>info\<close> points at the caller's record, which is both the
  input and the output buffer of the request; the result carries the record as the call
  leaves it.
\<close>

definition USBPcapGetNodeInformation ::
  "world \<Rightarrow> PDEVICE_OBJECT \<Rightarrow> ULONG \<Rightarrow> USB_NODE_CONNECTION_INFORMATION \<Rightarrow> kernel \<Rightarrow>
     USB_NODE_CONNECTION_INFORMATION outcome \<times> kernel" where
  "USBPcapGetNodeInformation w hub port info k =
     (let info1 = info\<lparr>ConnectionIndex := port\<rparr> in
      if \<not> IoBuildDeviceIoControlRequest w (IOCTL_USB_GET_NODE_CONNECTION_INFORMATION port) hub
      then (Returned STATUS_INSUFFICIENT_RESOURCES info1, k)
      else
        (case IoCallDriver hub (IOCTL_USB_GET_NODE_CONNECTION_INFORMATION (ConnectionIndex info1))
                (GetNodeConnectionInformation w hub info1) k of
           (None, k1) \<Rightarrow> (Blocked, k1)
         | (Some status, k1) \<Rightarrow>
             (Returned status (Output (GetNodeConnectionInformation w hub info1)), k1)))"

section \<open>USBPcapGetDeviceUSBAddress\<close>

text \<open>
  Source lines 317 to 361. The out-parameter \<^verbatim>\<open>*address\<close> is \<open>Some a\<close> when the function
  stored \<open>a\<close>. The locals \<^verbatim>\<open>devicePdo\<close> and \<^verbatim>\<open>port\<close> are read only after the call that
  stores them has reported success.
\<close>

definition USBPcapGetDeviceUSBAddress ::
  "world \<Rightarrow> PDEVICE_OBJECT \<Rightarrow> PDEVICE_OBJECT \<Rightarrow> kernel \<Rightarrow> USHORT option outcome \<times> kernel" where
  "USBPcapGetDeviceUSBAddress w hub device k =
     (case USBPcapGetTargetDevicePdo w device k of
        (Fault f, k1) \<Rightarrow> (Fault f, k1)
      | (Blocked, k1) \<Rightarrow> (Blocked, k1)
      | (Returned status devicePdo, k1) \<Rightarrow>
          if \<not> NT_SUCCESS status then (Returned status None, k1)
          else
            (case devicePdo of
               None \<Rightarrow> (Fault Uninitialised, k1)
             | Some pdo \<Rightarrow>
                 (case USBPcapGetTargetDevicePort w pdo k1 of
                    (Fault f, k2) \<Rightarrow> (Fault f, k2)
                  | (Blocked, k2) \<Rightarrow> (Blocked, k2)
                  | (Returned status port, k2) \<Rightarrow>
                      let k3 = ObDereferenceObject pdo k2 in
                      if \<not> NT_SUCCESS status then (Returned status None, k3)
                      else
                        (case port of
                           None \<Rightarrow> (Fault Uninitialised, k3)
                         | Some port \<Rightarrow>
                             (case USBPcapGetNodeInformation w hub port (StackContents w) k3 of
                                (Fault f, k4) \<Rightarrow> (Fault f, k4)
                              | (Blocked, k4) \<Rightarrow> (Blocked, k4)
                              | (Returned status info, k4) \<Rightarrow>
                                  if NT_SUCCESS status
                                  then (Returned status (Some (DeviceAddress info)), k4)
                                  else (Returned status None, k4))))))"

section \<open>What a caller observes\<close>

text \<open>
  The status a dispatched request ends with, as the three request functions compute it,
  and whether the request ends at all.
\<close>

definition completion_status :: "'a completion \<Rightarrow> NTSTATUS" where
  "completion_status c = (if Immediate c = STATUS_PENDING then Final c else Immediate c)"

definition completes :: "'a completion \<Rightarrow> bool" where
  "completes c = (if Immediate c = STATUS_PENDING then Signalled c else True)"

text \<open>The calls made between two kernel states, and the objects released among them.\<close>

definition new_calls :: "kernel \<Rightarrow> kernel \<Rightarrow> kcall list" where
  "new_calls k k' = drop (length (calls k)) (calls k')"

fun releases :: "kcall list \<Rightarrow> PDEVICE_OBJECT list" where
  "releases [] = []"
| "releases (Dereference p # cs) = p # releases cs"
| "releases (c # cs) = releases cs"

fun port_queries :: "kcall list \<Rightarrow> (PDEVICE_OBJECT \<times> ULONG) list" where
  "port_queries [] = []"
| "port_queries (Dispatch hub (IOCTL_USB_GET_NODE_CONNECTION_INFORMATION port) # cs) =
     (hub, port) # port_queries cs"
| "port_queries (c # cs) = port_queries cs"

text \<open>
  Decimal digit runs, and a kernel whose conversion routine reads them: for a counted
  string of blanks, a run of decimal digits and a full stop, base 0, it reports success
  and stores the value of the run.
\<close>

definition full_stop :: WCHAR where
  "full_stop = 0x2E"

definition is_digit :: "WCHAR \<Rightarrow> bool" where
  "is_digit c \<longleftrightarrow> 0x30 \<le> c \<and> c \<le> 0x39"

definition decimal :: "WCHAR list \<Rightarrow> nat" where
  "decimal ds = foldl (\<lambda>a d. 10 * a + (unat d - 0x30)) 0 ds"

definition converts_decimal :: "world \<Rightarrow> bool" where
  "converts_decimal w \<longleftrightarrow>
     (\<forall>n ds r. ds \<noteq> [] \<and> list_all is_digit ds \<and> decimal ds < 2 ^ 32 \<longrightarrow>
        RtlUnicodeStringToInteger w (replicate n blank @ ds @ full_stop # r) 0 =
          (STATUS_SUCCESS, of_nat (decimal ds)))"

text \<open>
  The parsing step described on the block instead of by the loop: the cell at which the
  scan for \<^verbatim>\<open>#\<close> stops (the first \<^verbatim>\<open>#\<close>, or cell \<open>len\<close> when no \<^verbatim>\<open>#\<close> comes before
  it), the number of characters of the counted string (those before the terminator, held
  to what \<^verbatim>\<open>Length\<close> can carry), and the counted string with every cell up to and
  including the stopping cell blank.
\<close>

definition marker :: "WCHAR list \<Rightarrow> nat \<Rightarrow> nat" where
  "marker text len = min (length (takeWhile (\<lambda>c. c \<noteq> hash) text)) len"

definition counted :: "WCHAR list \<Rightarrow> nat" where
  "counted text = min (length (takeWhile (\<lambda>c. c \<noteq> NUL) text)) 0x7FFE"

definition blanked :: "WCHAR list \<Rightarrow> nat \<Rightarrow> WCHAR list" where
  "blanked text len =
     take (counted text)
       (replicate (Suc (marker text len)) blank @ drop (Suc (marker text len)) text)"

section \<open>A test bench\<close>

text \<open>
  A conversion routine for the bench, after the documented behaviour of
  \<^verbatim>\<open>RtlUnicodeStringToInteger\<close>: characters up to the blank are skipped, a sign is
  accepted, base 0 means decimal unless a prefix \<^verbatim>\<open>0b\<close>, \<^verbatim>\<open>0o\<close> or \<^verbatim>\<open>0x\<close> follows, and
  digits are taken up to the first character that is not a digit of the base.
\<close>

definition STATUS_INVALID_PARAMETER :: NTSTATUS where
  "STATUS_INVALID_PARAMETER = 0xC000000D"

definition digit_value :: "WCHAR \<Rightarrow> nat option" where
  "digit_value c =
     (if 0x30 \<le> c \<and> c \<le> 0x39 then Some (unat c - 0x30)
      else if 0x41 \<le> c \<and> c \<le> 0x5A then Some (unat c - 0x41 + 10)
      else if 0x61 \<le> c \<and> c \<le> 0x7A then Some (unat c - 0x61 + 10)
      else None)"

fun digits_value :: "ULONG \<Rightarrow> ULONG \<Rightarrow> WCHAR list \<Rightarrow> ULONG" where
  "digits_value base acc [] = acc"
| "digits_value base acc (c # cs) =
     (case digit_value c of
        None \<Rightarrow> acc
      | Some d \<Rightarrow>
          if unat base \<le> d then acc
          else digits_value base (acc * base + of_nat d) cs)"

definition skip_sign :: "WCHAR list \<Rightarrow> bool \<times> WCHAR list" where
  "skip_sign s =
     (case s of
        [] \<Rightarrow> (False, [])
      | c # cs \<Rightarrow>
          if c = 0x2B then (False, cs) else if c = 0x2D then (True, cs) else (False, s))"

definition skip_prefix :: "WCHAR list \<Rightarrow> ULONG \<times> WCHAR list" where
  "skip_prefix s =
     (case s of
        c0 # c1 # cs \<Rightarrow>
          if c0 = 0x30 \<and> c1 = 0x62 then (2, cs)
          else if c0 = 0x30 \<and> c1 = 0x6F then (8, cs)
          else if c0 = 0x30 \<and> c1 = 0x78 then (16, cs)
          else (10, s)
      | _ \<Rightarrow> (10, s))"

definition StringToInteger :: "WCHAR list \<Rightarrow> ULONG \<Rightarrow> NTSTATUS \<times> ULONG" where
  "StringToInteger String Base =
     (case skip_sign (dropWhile (\<lambda>c. c \<le> blank) String) of
        (negative, s) \<Rightarrow>
          (case (if Base = 0 then skip_prefix s else (Base, s)) of
             (base, ds) \<Rightarrow>
               if base = 2 \<or> base = 8 \<or> base = 10 \<or> base = 16
               then (STATUS_SUCCESS,
                     if negative then - digits_value base 0 ds else digits_value base 0 ds)
               else (STATUS_INVALID_PARAMETER, 0)))"

text \<open>
  The bench: every request object can be built; device \<open>d\<close> sits on the physical device
  object \<open>d + 1\<close>, whose location text is \<open>text\<close>; the relation query completes after a
  wait; the hub has four ports and reports address \<open>port + 4\<close> for a port; the property
  query follows its two-phase contract; the pool never runs out.
\<close>

definition finished :: "NTSTATUS \<Rightarrow> 'a \<Rightarrow> 'a completion" where
  "finished status out = \<lparr>Immediate = status, Signalled = True, Final = status, Output = out\<rparr>"

definition bench :: "WCHAR list \<Rightarrow> world" where
  "bench text =
     \<lparr>IoBuildSynchronousFsdRequest = (\<lambda>dev. True),
      IoBuildDeviceIoControlRequest = (\<lambda>req dev. True),
      QueryDeviceRelations = (\<lambda>dev.
        \<lparr>Immediate = STATUS_PENDING, Signalled = True, Final = STATUS_SUCCESS,
         Output = Some (Suc dev)\<rparr>),
      GetNodeInformation = (\<lambda>dev t.
        finished STATUS_SUCCESS
          \<lparr>NodeType = UsbHub, bNumberOfPorts = 4, NumberOfInterfaces = 0\<rparr>),
      GetNodeConnectionInformation = (\<lambda>dev info.
        finished STATUS_SUCCESS
          (info\<lparr>DeviceIsHub := False, DeviceAddress := ucast (ConnectionIndex info) + 4,
                ConnectionStatus := 1\<rparr>)),
      IoGetDeviceProperty = (\<lambda>pdo BufferLength present.
        if present \<and> 2 * (length text + 1) \<le> unat BufferLength
        then (STATUS_SUCCESS, text @ [NUL], of_nat (2 * (length text + 1)))
        else (STATUS_BUFFER_TOO_SMALL, [], of_nat (2 * (length text + 1)))),
      ExAllocatePoolWithTag = (\<lambda>n. True),
      PoolContents = (\<lambda>i. 0xFFFF),
      RtlUnicodeStringToInteger = StringToInteger,
      StackContents =
        \<lparr>ConnectionIndex = 0, DeviceIsHub = False, DeviceAddress = 0, ConnectionStatus = 0\<rparr>\<rparr>"

text \<open>The kernel state before the call: every object holds one reference, no call made.\<close>

definition boot :: kernel where
  "boot = \<lparr>PointerCount = (\<lambda>p. 1), calls = []\<rparr>"

text \<open>
  Variations of the bench: no request object can be built; the first property call
  reports success although the buffer is empty; the first property call fails outright;
  the hub fails the connection request after a wait; the node is a composite parent; the
  pool is exhausted; the pool is exhausted and the property routine still reports success;
  the node fails the node-information request after a wait.
\<close>

definition exhausted :: world where
  "exhausted = (bench [])\<lparr>IoBuildSynchronousFsdRequest := (\<lambda>dev. False),
                         IoBuildDeviceIoControlRequest := (\<lambda>req dev. False)\<rparr>"

definition anomalous :: world where
  "anomalous = (bench [])\<lparr>IoGetDeviceProperty := (\<lambda>pdo n present. (STATUS_SUCCESS, [], 0))\<rparr>"

definition refusing :: world where
  "refusing =
     (bench [])\<lparr>IoGetDeviceProperty := (\<lambda>pdo n present. (STATUS_NOT_SUPPORTED, [], 0))\<rparr>"

definition unplugged :: "WCHAR list \<Rightarrow> world" where
  "unplugged text = (bench text)\<lparr>GetNodeConnectionInformation := (\<lambda>dev info.
       \<lparr>Immediate = STATUS_PENDING, Signalled = True, Final = STATUS_NOT_SUPPORTED,
        Output = info\<rparr>)\<rparr>"

definition composite :: world where
  "composite = (bench [])\<lparr>GetNodeInformation := (\<lambda>dev t.
       finished STATUS_SUCCESS
         \<lparr>NodeType = UsbMIParent, bNumberOfPorts = 9, NumberOfInterfaces = 2\<rparr>)\<rparr>"

definition starved :: "WCHAR list \<Rightarrow> world" where
  "starved text = (bench text)\<lparr>ExAllocatePoolWithTag := (\<lambda>n. False)\<rparr>"

definition careless :: world where
  "careless = (bench [])\<lparr>ExAllocatePoolWithTag := (\<lambda>n. False),
       IoGetDeviceProperty := (\<lambda>pdo n present.
         if n = 0 then (STATUS_BUFFER_TOO_SMALL, [], 8) else (STATUS_SUCCESS, [], 8))\<rparr>"

definition silent :: world where
  "silent = (bench [])\<lparr>GetNodeInformation := (\<lambda>dev t.
       \<lparr>Immediate = STATUS_PENDING, Signalled = True, Final = STATUS_NOT_SUPPORTED,
        Output = \<lparr>NodeType = t, bNumberOfPorts = 0, NumberOfInterfaces = 0\<rparr>\<rparr>)\<rparr>"

text \<open>
  Further variations: the relation query is refused at once; the second property call
  fails; the conversion routine refuses every string; no control request can be built
  while the relation query can.
\<close>

definition detached :: world where
  "detached = (bench [])\<lparr>QueryDeviceRelations := (\<lambda>dev.
       \<lparr>Immediate = STATUS_NOT_SUPPORTED, Signalled = False, Final = STATUS_NOT_SUPPORTED,
        Output = None\<rparr>)\<rparr>"

definition vanishing :: world where
  "vanishing = (bench [])\<lparr>IoGetDeviceProperty := (\<lambda>pdo n present.
       if n = 0 then (STATUS_BUFFER_TOO_SMALL, [], 8) else (STATUS_NOT_SUPPORTED, [], 0))\<rparr>"

definition illiterate :: "WCHAR list \<Rightarrow> world" where
  "illiterate text = (bench text)\<lparr>RtlUnicodeStringToInteger :=
       (\<lambda>s base. (STATUS_INVALID_PARAMETER, 0))\<rparr>"

definition drained :: "WCHAR list \<Rightarrow> world" where
  "drained text = (bench text)\<lparr>IoBuildDeviceIoControlRequest := (\<lambda>req dev. False)\<rparr>"

section \<open>Basic facts\<close>

lemmas status_defs = STATUS_SUCCESS_def STATUS_PENDING_def STATUS_INVALID_DEVICE_REQUEST_def
  STATUS_BUFFER_TOO_SMALL_def STATUS_INSUFFICIENT_RESOURCES_def STATUS_NOT_SUPPORTED_def
  STATUS_INVALID_PARAMETER_def

lemmas bench_defs = bench_def finished_def boot_def exhausted_def anomalous_def refusing_def
  unplugged_def composite_def starved_def careless_def silent_def detached_def vanishing_def
  illiterate_def drained_def

lemmas text_defs = marker_def counted_def blanked_def

lemmas char_defs = wide_def hash_def blank_def NUL_def full_stop_def

lemmas unit_defs = USBPcapGetDeviceUSBAddress_def USBPcapGetTargetDevicePdo_def
  USBPcapGetTargetDevicePort_def USBPcapGetNodeInformation_def USBPcapGetNumberOfPorts_def
  IoCallDriver_def ObDereferenceObject_def ObReferenceObject_def ExFreePool_def called_def
  pool_block_def copy_to_def ParsePort_def RtlInitUnicodeString_def blank_prefix.simps
  NT_SUCCESS_def Let_def

lemmas converter_defs = StringToInteger_def skip_sign_def skip_prefix_def digit_value_def

lemma not_success_insufficient_resources: "\<not> NT_SUCCESS STATUS_INSUFFICIENT_RESOURCES"
  by (simp add: NT_SUCCESS_def STATUS_INSUFFICIENT_RESOURCES_def)

lemma not_success_invalid_device_request: "\<not> NT_SUCCESS STATUS_INVALID_DEVICE_REQUEST"
  by (simp add: NT_SUCCESS_def STATUS_INVALID_DEVICE_REQUEST_def)

lemma IoCallDriver_cases:
  "IoCallDriver dev req c k =
     (if completes c
      then (Some (completion_status c),
            if Immediate c = STATUS_PENDING then called Wait (called (Dispatch dev req) k)
            else called (Dispatch dev req) k)
      else (None, called Wait (called (Dispatch dev req) k)))"
  by (simp add: IoCallDriver_def completes_def completion_status_def Let_def)

lemma new_calls_append: "calls k' = calls k @ cs \<Longrightarrow> new_calls k k' = cs"
  by (simp add: new_calls_def)

lemma releases_append: "releases (xs @ ys) = releases xs @ releases ys"
  by (induction xs rule: releases.induct) auto

lemma port_queries_append: "port_queries (xs @ ys) = port_queries xs @ port_queries ys"
  by (induction xs rule: port_queries.induct) auto

section \<open>Request construction\<close>

text \<open>
  Claim C9. When the request object cannot be built, each of the three request functions
  returns \<^verbatim>\<open>STATUS_INSUFFICIENT_RESOURCES\<close> at once: the kernel state is the one it was
  called in, so nothing was dispatched and nothing was waited for. (The connection query
  has by then stored the port in the caller's record.)
\<close>

theorem request_construction_failure:
  "(\<not> IoBuildSynchronousFsdRequest w DeviceObject \<longrightarrow>
      USBPcapGetTargetDevicePdo w DeviceObject k =
        (Returned STATUS_INSUFFICIENT_RESOURCES None, k)) \<and>
   (\<not> IoBuildDeviceIoControlRequest w IOCTL_USB_GET_NODE_INFORMATION parent \<longrightarrow>
      USBPcapGetNumberOfPorts w parent k =
        (Returned STATUS_INSUFFICIENT_RESOURCES None, k)) \<and>
   (\<not> IoBuildDeviceIoControlRequest w (IOCTL_USB_GET_NODE_CONNECTION_INFORMATION port) hub \<longrightarrow>
      USBPcapGetNodeInformation w hub port info k =
        (Returned STATUS_INSUFFICIENT_RESOURCES (info\<lparr>ConnectionIndex := port\<rparr>), k))"
  by (simp add: USBPcapGetTargetDevicePdo_def USBPcapGetNumberOfPorts_def
      USBPcapGetNodeInformation_def)

theorem request_construction_failure_witness:
  "USBPcapGetTargetDevicePdo exhausted 2 boot =
     (Returned STATUS_INSUFFICIENT_RESOURCES None, boot) \<and>
   USBPcapGetNumberOfPorts exhausted 1 boot =
     (Returned STATUS_INSUFFICIENT_RESOURCES None, boot) \<and>
   USBPcapGetNodeInformation exhausted 1 3 (StackContents exhausted) boot =
     (Returned STATUS_INSUFFICIENT_RESOURCES
        ((StackContents exhausted)\<lparr>ConnectionIndex := 3\<rparr>), boot) \<and>
   new_calls boot boot = []"
  using request_construction_failure [where w = exhausted and DeviceObject = 2 and k = boot
      and parent = 1 and hub = 1 and port = 3 and info = "StackContents exhausted"]
  by (simp add: exhausted_def bench_def new_calls_def)

section \<open>The two-phase property query\<close>

text \<open>
  Claim C5. When the first, zero-length property call answers anything but
  \<^verbatim>\<open>STATUS_BUFFER_TOO_SMALL\<close>, \<^verbatim>\<open>USBPcapGetTargetDevicePort\<close> returns at once: a failing
  status is returned as it is, a success is turned into
  \<^verbatim>\<open>STATUS_INVALID_DEVICE_REQUEST\<close>. The status returned is never a success, no port is
  stored, and the only call made is that first property call: no allocation, no second
  call.
\<close>

theorem first_phase_not_too_small:
  assumes "IoGetDeviceProperty w pdo_device 0 False = (status, data, len)"
    and "status \<noteq> STATUS_BUFFER_TOO_SMALL"
  shows "USBPcapGetTargetDevicePort w pdo_device k =
           (Returned (if NT_SUCCESS status then STATUS_INVALID_DEVICE_REQUEST else status) None,
            called (PropertyQuery pdo_device 0 False) k) \<and>
         \<not> NT_SUCCESS (if NT_SUCCESS status then STATUS_INVALID_DEVICE_REQUEST else status)"
  using assms
  by (simp add: USBPcapGetTargetDevicePort_def Let_def not_success_invalid_device_request)

theorem first_phase_not_too_small_witness:
  "USBPcapGetTargetDevicePort anomalous 3 boot =
     (Returned STATUS_INVALID_DEVICE_REQUEST None, called (PropertyQuery 3 0 False) boot) \<and>
   USBPcapGetTargetDevicePort refusing 3 boot =
     (Returned STATUS_NOT_SUPPORTED None, called (PropertyQuery 3 0 False) boot) \<and>
   calls (called (PropertyQuery 3 0 False) boot) = [PropertyQuery 3 0 False]"
  using first_phase_not_too_small [of anomalous 3 STATUS_SUCCESS "[]" 0 boot]
    first_phase_not_too_small [of refusing 3 STATUS_NOT_SUPPORTED "[]" 0 boot]
  by (simp add: anomalous_def refusing_def bench_def boot_def called_def NT_SUCCESS_def
      status_defs)

section \<open>The port count\<close>

text \<open>
  Claim C6. When the node-information request was built and completes, the status of
  \<^verbatim>\<open>USBPcapGetNumberOfPorts\<close> is the status of the request. If that is a success, the
  count stored is the hub descriptor's \<^verbatim>\<open>bNumberOfPorts\<close> when the node answers
  \<^verbatim>\<open>UsbHub\<close>, and \<^verbatim>\<open>NumberOfInterfaces\<close> of the composite parent otherwise; if it is not a
  success, no count is stored.
\<close>

theorem port_count:
  assumes "IoBuildDeviceIoControlRequest w IOCTL_USB_GET_NODE_INFORMATION parent"
    and "completes (GetNodeInformation w parent UsbHub)"
    and "status = completion_status (GetNodeInformation w parent UsbHub)"
    and "info = Output (GetNodeInformation w parent UsbHub)"
  shows "fst (USBPcapGetNumberOfPorts w parent k) =
           (if NT_SUCCESS status
            then Returned status
                   (Some (if NodeType info = UsbHub then ucast (bNumberOfPorts info)
                          else NumberOfInterfaces info))
            else Returned status None)"
  using assms
  by (simp add: USBPcapGetNumberOfPorts_def IoCallDriver_cases Let_def)

theorem port_count_witness:
  "fst (USBPcapGetNumberOfPorts (bench []) 1 boot) = Returned STATUS_SUCCESS (Some 4) \<and>
   fst (USBPcapGetNumberOfPorts composite 1 boot) = Returned STATUS_SUCCESS (Some 2) \<and>
   fst (USBPcapGetNumberOfPorts silent 1 boot) = Returned STATUS_NOT_SUPPORTED None"
  using port_count [where w = "bench []" and parent = 1 and status = STATUS_SUCCESS
      and k = boot, OF _ _ _ refl]
    port_count [where w = composite and parent = 1 and status = STATUS_SUCCESS
      and k = boot, OF _ _ _ refl]
    port_count [where w = silent and parent = 1 and status = STATUS_NOT_SUPPORTED
      and k = boot, OF _ _ _ refl]
  by (simp add: bench_defs completes_def completion_status_def NT_SUCCESS_def status_defs)

section \<open>The parsing step\<close>

lemma wcslen_terminated: "NUL \<notin> set xs \<Longrightarrow> wcslen (xs @ NUL # ys) = Some (length xs)"
  by (induction xs) auto

lemma blank_prefix_found:
  "hash \<notin> set pre \<Longrightarrow> length seen + length pre \<le> len \<Longrightarrow>
   blank_prefix (seen @ pre @ hash # rest) len (length seen) =
     Some (length seen + length pre, seen @ replicate (length pre) blank @ hash # rest)"
proof (induction pre arbitrary: seen)
  case Nil
  then show ?case by (subst blank_prefix.simps) simp
next
  case (Cons a pre)
  have step: "blank_prefix ((seen @ [blank]) @ pre @ hash # rest) len (length (seen @ [blank])) =
      Some (length (seen @ [blank]) + length pre,
            (seen @ [blank]) @ replicate (length pre) blank @ hash # rest)"
    using Cons.prems by (intro Cons.IH) auto
  show ?case
    using Cons.prems step
    by (subst blank_prefix.simps) (auto simp: replicate_append_same)
qed

lemma blank_prefix_missing:
  "hash \<notin> set (drop idx location) \<Longrightarrow> length location \<le> len \<Longrightarrow>
   blank_prefix location len idx = None"
proof (induction location len idx rule: blank_prefix.induct)
  case (1 location len idx)
  show ?case
  proof (cases "length location \<le> idx")
    case True
    then show ?thesis by (subst blank_prefix.simps) simp
  next
    case False
    then have here: "location ! idx \<in> set (drop idx location)"
      by (metis Cons_nth_drop_Suc list.set_intros(1) not_le)
    have rest: "set (drop (Suc idx) (location[idx := blank])) \<subseteq> set (drop idx location)"
      by (simp add: drop_update_cancel set_drop_subset_set_drop)
    have "blank_prefix (location[idx := blank]) len (Suc idx) = None"
      using False here rest "1.prems" by (intro "1.IH") auto
    then show ?thesis
      using False here "1.prems" by (subst blank_prefix.simps) auto
  qed
qed

text \<open>
  With a \<^verbatim>\<open>#\<close> in the text, the parsing step adds no check of its own: its result is
  whatever the conversion routine answers for the counted string in which the text up to
  and including the first \<^verbatim>\<open>#\<close> is blank.
\<close>

lemma parse_port_with_hash:
  assumes "hash \<notin> set pre" and "NUL \<notin> set pre" and "NUL \<notin> set rest"
    and "length pre \<le> unat len"
    and "length (pre @ hash # rest) \<le> 32766"
  shows "ParsePort w (Some (pre @ hash # rest @ NUL # slack)) len =
           Inr (RtlUnicodeStringToInteger w (replicate (Suc (length pre)) blank @ rest) 0)"
proof -
  let ?text = "pre @ hash # rest"
  have "NUL \<notin> set ?text"
    using assms(2,3) by (auto simp: NUL_def hash_def)
  then have "wcslen (?text @ NUL # slack) = Some (length ?text)"
    by (rule wcslen_terminated)
  then have len: "RtlInitUnicodeString (Some (pre @ hash # rest @ NUL # slack)) =
      Some (2 * length ?text)"
    using assms(5) by (simp add: RtlInitUnicodeString_def)
  have "blank_prefix ([] @ pre @ hash # (rest @ NUL # slack)) (unat len) (length ([]::WCHAR list)) =
      Some (length ([]::WCHAR list) + length pre,
            [] @ replicate (length pre) blank @ hash # (rest @ NUL # slack))"
    using assms(1,4) by (intro blank_prefix_found) auto
  then have loop: "blank_prefix (pre @ hash # rest @ NUL # slack) (unat len) 0 =
      Some (length pre, replicate (length pre) blank @ hash # rest @ NUL # slack)"
    by simp
  have upd: "(replicate (length pre) blank @ hash # rest @ NUL # slack)[length pre := blank] =
      replicate (Suc (length pre)) blank @ rest @ NUL # slack"
    by (simp add: list_update_append replicate_append_same)
  show ?thesis
    by (simp add: ParsePort_def len loop upd)
qed

text \<open>
  The parsing step on any block: it stays inside the block exactly when the block holds a
  terminator and the scan stops at a cell of the block, and then its result is the answer
  of the conversion routine for the blanked counted string.
\<close>

lemma wcslen_takeWhile:
  "wcslen loc = (if NUL \<in> set loc then Some (length (takeWhile (\<lambda>c. c \<noteq> NUL) loc)) else None)"
  by (induction loc) auto

lemma RtlInitUnicodeString_counted:
  "RtlInitUnicodeString (Some loc) = (if NUL \<in> set loc then Some (2 * counted loc) else None)"
  by (simp add: RtlInitUnicodeString_def wcslen_takeWhile counted_def min_def)

lemma blank_prefix_scan:
  "idx \<le> length location \<Longrightarrow>
   blank_prefix location len idx =
     (let j = idx + min (length (takeWhile (\<lambda>c. c \<noteq> hash) (drop idx location))) (len - idx)
      in if j < length location
         then Some (j, take idx location @ replicate (j - idx) blank @ drop j location)
         else None)"
proof (induction location len idx rule: blank_prefix.induct)
  case (1 location len idx)
  show ?case
  proof (cases "length location \<le> idx")
    case True
    then show ?thesis using "1.prems" by (subst blank_prefix.simps) simp
  next
    case inside: False
    then have cons: "drop idx location = location ! idx # drop (Suc idx) location"
      by (simp add: Cons_nth_drop_Suc)
    show ?thesis
    proof (cases "location ! idx \<noteq> hash \<and> idx < len")
      case False
      then have "min (length (takeWhile (\<lambda>c. c \<noteq> hash) (drop idx location))) (len - idx) = 0"
        using cons by auto
      then show ?thesis
        using False inside by (subst blank_prefix.simps) auto
    next
      case True
      let ?n = "length (takeWhile (\<lambda>c. c \<noteq> hash) (drop (Suc idx) location))"
      have d: "len - idx = Suc (len - Suc idx)"
        using True by arith
      have m: "min (length (takeWhile (\<lambda>c. c \<noteq> hash) (drop idx location))) (len - idx) =
          Suc (min ?n (len - Suc idx))"
        using True cons by (simp add: d)
      have ih: "blank_prefix (location[idx := blank]) len (Suc idx) =
          (let j = Suc idx + min (length (takeWhile (\<lambda>c. c \<noteq> hash)
                                   (drop (Suc idx) (location[idx := blank])))) (len - Suc idx)
           in if j < length (location[idx := blank])
              then Some (j, take (Suc idx) (location[idx := blank]) @
                            replicate (j - Suc idx) blank @ drop j (location[idx := blank]))
              else None)"
        using True inside by (intro "1.IH") auto
      have t: "take (Suc idx) (location[idx := blank]) = take idx location @ [blank]"
        using inside by (simp add: take_Suc_conv_app_nth)
      have "blank_prefix location len idx = blank_prefix (location[idx := blank]) len (Suc idx)"
        using True inside by (subst blank_prefix.simps) simp
      then show ?thesis
        using ih m t by (simp add: Let_def replicate_append_same)
    qed
  qed
qed

lemma blank_marker:
  assumes "m < length location"
  shows "(replicate m blank @ drop m location)[m := blank] =
           replicate (Suc m) blank @ drop (Suc m) location"
proof -
  have "drop m location = location ! m # drop (Suc m) location"
    using assms by (simp add: Cons_nth_drop_Suc)
  then show ?thesis
    by (simp add: list_update_append replicate_append_same)
qed

lemma ParsePort_blanked:
  "ParsePort w (Some location) len =
     (if NUL \<in> set location \<and> marker location (unat len) < length location
      then Inr (RtlUnicodeStringToInteger w (blanked location (unat len)) 0)
      else Inl OutOfBounds)"
  by (simp add: ParsePort_def RtlInitUnicodeString_counted blank_prefix_scan marker_def
      blanked_def Let_def blank_marker)

lemma ParsePort_null: "ParsePort w None len = Inl NullPointer"
  by (simp add: ParsePort_def RtlInitUnicodeString_def)

subsection \<open>The conversion routine of the bench\<close>

lemma digit_value_digit:
  "is_digit c \<Longrightarrow> digit_value c = Some (unat c - 0x30) \<and> unat c - 0x30 < 10"
  by (auto simp: is_digit_def digit_value_def word_le_nat_alt)

lemma digit_value_full_stop: "digit_value full_stop = None"
  by (simp add: digit_value_def full_stop_def)

lemma digits_value_run:
  "list_all is_digit ds \<Longrightarrow>
   digits_value 10 (of_nat a) (ds @ full_stop # r) =
     of_nat (foldl (\<lambda>a d. 10 * a + (unat d - 0x30)) a ds)"
proof (induction ds arbitrary: a)
  case Nil
  then show ?case by (simp add: digit_value_full_stop)
next
  case (Cons d ds)
  then have d: "digit_value d = Some (unat d - 0x30)" "unat d - 0x30 < 10"
    using digit_value_digit by auto
  have "digits_value 10 (of_nat (10 * a + (unat d - 0x30))) (ds @ full_stop # r) =
      of_nat (foldl (\<lambda>a d. 10 * a + (unat d - 0x30)) (10 * a + (unat d - 0x30)) ds)"
    using Cons.prems by (intro Cons.IH) simp
  then show ?case using d by (simp add: mult.commute)
qed

lemma digit_above_blank: "is_digit c \<Longrightarrow> \<not> c \<le> blank"
  by (auto simp: is_digit_def blank_def word_le_nat_alt)

lemma digit_not_special:
  "is_digit c \<Longrightarrow> c \<noteq> 0x2B \<and> c \<noteq> 0x2D \<and> c \<noteq> 0x62 \<and> c \<noteq> 0x6F \<and> c \<noteq> 0x78"
  by (auto simp: is_digit_def)

lemma StringToInteger_decimal:
  assumes "ds \<noteq> []" and "list_all is_digit ds"
  shows "StringToInteger (replicate n blank @ ds @ full_stop # r) 0 =
           (STATUS_SUCCESS, of_nat (decimal ds))"
proof -
  obtain d ds' where ds: "ds = d # ds'" using assms(1) by (cases ds) auto
  have d: "is_digit d" using assms(2) ds by simp
  have skip: "dropWhile (\<lambda>c. c \<le> blank) (replicate n blank @ ds @ full_stop # r) = ds @ full_stop # r"
    using digit_above_blank [OF d] ds by (simp add: dropWhile_append3)
  have sign: "skip_sign (ds @ full_stop # r) = (False, ds @ full_stop # r)"
    using digit_not_special [OF d] ds by (simp add: skip_sign_def)
  have pre: "skip_prefix (ds @ full_stop # r) = (10, ds @ full_stop # r)"
  proof (cases ds')
    case Nil
    then show ?thesis using ds by (simp add: skip_prefix_def full_stop_def)
  next
    case (Cons e es)
    then have "is_digit e" using assms(2) ds by simp
    then show ?thesis using ds Cons digit_not_special [of e] by (simp add: skip_prefix_def)
  qed
  have "digits_value 10 (of_nat 0) (ds @ full_stop # r) = of_nat (decimal ds)"
    unfolding decimal_def using assms(2) by (rule digits_value_run)
  then show ?thesis
    by (simp add: StringToInteger_def skip sign pre)
qed

lemma bench_converts_decimal: "converts_decimal (bench text)"
  by (simp add: converts_decimal_def bench_def StringToInteger_decimal)

subsection \<open>Texts of the expected shape\<close>

text \<open>
  Claim C4. For a location text \<^verbatim>\<open>pre#XXXX.rest\<close> with no \<^verbatim>\<open>#\<close> in \<open>pre\<close> and a run
  \<^verbatim>\<open>XXXX\<close> of decimal digits, held in a terminated block, the parsing step reports success
  and stores the number \<^verbatim>\<open>XXXX\<close>, on every kernel whose conversion routine reads decimal
  digit runs; for \<^verbatim>\<open>Port_#0003.Hub_#0001\<close> the port is 3.
\<close>

theorem parse_port_shaped:
  assumes "converts_decimal w"
    and "hash \<notin> set pre" and "NUL \<notin> set pre" and "NUL \<notin> set rest"
    and "ds \<noteq> []" and "list_all is_digit ds" and "decimal ds < 2 ^ 32"
    and "length pre \<le> unat len"
    and "length (pre @ hash # ds @ full_stop # rest) \<le> 32766"
  shows "ParsePort w (Some (pre @ hash # ds @ full_stop # rest @ [NUL])) len =
           Inr (STATUS_SUCCESS, of_nat (decimal ds))"
proof -
  have "NUL \<notin> set ds"
    using assms(6) by (auto simp: list_all_iff is_digit_def NUL_def)
  then have nul: "NUL \<notin> set (ds @ full_stop # rest)"
    using assms(4) by (auto simp: NUL_def full_stop_def)
  have "ParsePort w (Some (pre @ hash # (ds @ full_stop # rest) @ NUL # [])) len =
      Inr (RtlUnicodeStringToInteger w (replicate (Suc (length pre)) blank @ ds @ full_stop # rest) 0)"
    using assms(2,3,8,9) nul by (intro parse_port_with_hash) auto
  moreover have "RtlUnicodeStringToInteger w (replicate (Suc (length pre)) blank @ ds @ full_stop # rest) 0 =
      (STATUS_SUCCESS, of_nat (decimal ds))"
    using assms(1,5,6,7) unfolding converts_decimal_def by blast
  ultimately show ?thesis by simp
qed

theorem parse_port_shaped_witness:
  "ParsePort (bench []) (Some (wide ''Port_#0003.Hub_#0001'' @ [NUL])) 42 =
     Inr (STATUS_SUCCESS, 3)"
  using parse_port_shaped [of "bench []" "wide ''Port_''" "wide ''Hub_#0001''" "wide ''0003''" 42,
      OF bench_converts_decimal]
  by (simp add: char_defs is_digit_def decimal_def)

subsection \<open>Texts without the marker\<close>

text \<open>
  Claim C3. A parse error is not what the unit answers to a text without \<^verbatim>\<open>#\<close>. The loop
  reads \<^verbatim>\<open>location[idx]\<close> before it compares \<open>idx\<close> with \<open>length\<close>, and \<open>length\<close> counts
  bytes where \<open>idx\<close> counts wide characters: on a block that holds no \<^verbatim>\<open>#\<close> and has no
  more cells than \<open>length\<close> says, the loop blanks every cell, the terminator included, and
  then reads past the end of the block. The function does not return a status.
\<close>

theorem parse_port_without_hash:
  assumes "hash \<notin> set location" and "length location \<le> unat len"
  shows "ParsePort w (Some location) len = Inl OutOfBounds"
  using assms by (simp add: ParsePort_def blank_prefix_missing split: option.splits)

theorem parse_port_without_hash_witness:
  "ParsePort (bench (wide ''NoHashHere'')) (Some (wide ''NoHashHere'' @ [NUL])) 22 =
     Inl OutOfBounds \<and>
   fst (USBPcapGetTargetDevicePort (bench (wide ''NoHashHere'')) 3 boot) = Fault OutOfBounds"
  using parse_port_without_hash [of "wide ''NoHashHere'' @ [NUL]" 22 "bench (wide ''NoHashHere'')"]
  by (simp add: USBPcapGetTargetDevicePort_def bench_defs char_defs pool_block_def copy_to_def
      Let_def NT_SUCCESS_def status_defs called_def)

text \<open>
  A text with the marker and no digit behind it reaches the conversion routine like any
  other; on the bench, whose routine stores 0 when it meets no digit, the answer is the
  port 0 and success.
\<close>

lemma no_digits_on_bench:
  "ParsePort (bench []) (Some (wide ''Port_#.Hub_#1'' @ [NUL])) 28 = Inr (STATUS_SUCCESS, 0)"
  using parse_port_with_hash [of "wide ''Port_''" "wide ''.Hub_#1''" 28 "bench []" "[]"]
  by (simp add: char_defs bench_def StringToInteger_def skip_sign_def skip_prefix_def digit_value_def)

section \<open>The pool block between the two phases\<close>

text \<open>
  Claim C10. The block asked of the pool for the second property call is used without a
  test. When the allocation fails, \<^verbatim>\<open>USBPcapGetTargetDevicePort\<close> still makes the second
  property call, with the \<^verbatim>\<open>NULL\<close> buffer; it has no status of its own for the failed
  allocation. If that call reports success, the function goes on to index the \<^verbatim>\<open>NULL\<close>
  pointer (the read \<^verbatim>\<open>location[0]\<close> of the loop condition comes first); if it fails, its
  status is returned after \<^verbatim>\<open>ExFreePool(NULL)\<close>.
\<close>

theorem allocation_failure_unguarded:
  assumes "IoGetDeviceProperty w pdo_device 0 False = (STATUS_BUFFER_TOO_SMALL, data, len)"
    and "\<not> ExAllocatePoolWithTag w len"
    and "IoGetDeviceProperty w pdo_device len False = (status, data', len')"
    and "k3 = called (PropertyQuery pdo_device len False)
                (called (PoolAlloc len) (called (PropertyQuery pdo_device 0 False) k))"
  shows "USBPcapGetTargetDevicePort w pdo_device k =
           (if NT_SUCCESS status then (Fault NullPointer, k3)
            else (Returned status None, called (PoolFree Null) k3))"
  using assms
  by (simp add: USBPcapGetTargetDevicePort_def pool_block_def ParsePort_def
      RtlInitUnicodeString_def ExFreePool_def Let_def)

theorem allocation_failure_unguarded_witness:
  "fst (USBPcapGetTargetDevicePort careless 3 boot) = Fault NullPointer \<and>
   calls (snd (USBPcapGetTargetDevicePort careless 3 boot)) =
     [PropertyQuery 3 0 False, PoolAlloc 8, PropertyQuery 3 8 False] \<and>
   fst (USBPcapGetTargetDevicePort (starved (wide ''Port_#0003.Hub_#0001'')) 3 boot) =
     Returned STATUS_BUFFER_TOO_SMALL None \<and>
   calls (snd (USBPcapGetTargetDevicePort (starved (wide ''Port_#0003.Hub_#0001'')) 3 boot)) =
     [PropertyQuery 3 0 False, PoolAlloc 42, PropertyQuery 3 42 False, PoolFree Null]"
  using allocation_failure_unguarded [of careless 3 "[]" 8 STATUS_SUCCESS "[]" 8 _ boot, OF _ _ _ refl]
    allocation_failure_unguarded [of "starved (wide ''Port_#0003.Hub_#0001'')" 3 "[]" 42
      STATUS_BUFFER_TOO_SMALL "[]" 42 _ boot, OF _ _ _ refl]
  by (simp add: bench_defs char_defs status_defs called_def NT_SUCCESS_def)

section \<open>The connection query and the caller's record\<close>

text \<open>
  On the bench where no request can be built, a connection query for port 3 ends with
  \<^verbatim>\<open>STATUS_INSUFFICIENT_RESOURCES\<close>, which is not a success, and the caller's record,
  whose \<^verbatim>\<open>ConnectionIndex\<close> was 0, comes back with \<^verbatim>\<open>ConnectionIndex\<close> 3:
  \<^verbatim>\<open>info->ConnectionIndex = port\<close> is the first statement of the function.
\<close>

theorem connection_record_written_counterexample:
  "\<not> NT_SUCCESS STATUS_INSUFFICIENT_RESOURCES \<and>
   ConnectionIndex (StackContents exhausted) = 0 \<and>
   USBPcapGetNodeInformation exhausted 1 3 (StackContents exhausted) boot =
     (Returned STATUS_INSUFFICIENT_RESOURCES
        \<lparr>ConnectionIndex = 3, DeviceIsHub = False, DeviceAddress = 0, ConnectionStatus = 0\<rparr>,
      boot)"
  by (simp add: USBPcapGetNodeInformation_def bench_defs not_success_insufficient_resources)

text \<open>
  Claim C7, amended. When \<^verbatim>\<open>USBPcapGetNodeInformation\<close> ends with a status that is not a
  success, the caller's record is the record it passed with \<^verbatim>\<open>ConnectionIndex\<close> set to
  the port when the request could not be built, and what the hub left in the in/out
  buffer, for that input, when the request was dispatched: the function itself writes
  \<^verbatim>\<open>ConnectionIndex\<close> and nothing else. \<^verbatim>\<open>USBPcapGetDeviceUSBAddress\<close> stores no address
  when it ends with such a status.
\<close>

theorem connection_record_on_failure:
  assumes "\<not> NT_SUCCESS status"
  shows "(USBPcapGetNodeInformation w hub port info k = (Returned status info', k') \<longrightarrow>
            info' =
              (if IoBuildDeviceIoControlRequest w (IOCTL_USB_GET_NODE_CONNECTION_INFORMATION port) hub
               then Output (GetNodeConnectionInformation w hub (info\<lparr>ConnectionIndex := port\<rparr>))
               else info\<lparr>ConnectionIndex := port\<rparr>)) \<and>
         (USBPcapGetDeviceUSBAddress w hub device k = (Returned status address, k') \<longrightarrow>
            address = None)"
proof (intro conjI impI)
  assume "USBPcapGetNodeInformation w hub port info k = (Returned status info', k')"
  then show "info' =
      (if IoBuildDeviceIoControlRequest w (IOCTL_USB_GET_NODE_CONNECTION_INFORMATION port) hub
       then Output (GetNodeConnectionInformation w hub (info\<lparr>ConnectionIndex := port\<rparr>))
       else info\<lparr>ConnectionIndex := port\<rparr>)"
    by (auto simp: USBPcapGetNodeInformation_def Let_def split: if_splits prod.splits option.splits)
next
  assume "USBPcapGetDeviceUSBAddress w hub device k = (Returned status address, k')"
  then show "address = None"
    using assms
    by (auto simp: USBPcapGetDeviceUSBAddress_def Let_def
        split: prod.splits outcome.splits if_splits option.splits)
qed

theorem connection_record_on_failure_witness:
  "USBPcapGetNodeInformation exhausted 1 3 (StackContents exhausted) boot =
     (Returned STATUS_INSUFFICIENT_RESOURCES ((StackContents exhausted)\<lparr>ConnectionIndex := 3\<rparr>), boot) \<and>
   fst (USBPcapGetNodeInformation (unplugged []) 1 3 (StackContents (unplugged [])) boot) =
     Returned STATUS_NOT_SUPPORTED ((StackContents (unplugged []))\<lparr>ConnectionIndex := 3\<rparr>) \<and>
   USBPcapGetDeviceUSBAddress exhausted 1 2 boot =
     (Returned STATUS_INSUFFICIENT_RESOURCES None, boot)"
  using connection_record_on_failure [where status = STATUS_INSUFFICIENT_RESOURCES
      and w = exhausted and hub = 1 and port = 3 and info = "StackContents exhausted"
      and k = boot and info' = "(StackContents exhausted)\<lparr>ConnectionIndex := 3\<rparr>"
      and k' = boot and device = 2 and address = None]
    connection_record_on_failure [where status = STATUS_NOT_SUPPORTED
      and w = "unplugged []" and hub = 1 and port = 3 and info = "StackContents (unplugged [])"
      and k = boot and info' = "(StackContents (unplugged []))\<lparr>ConnectionIndex := 3\<rparr>"
      and k' = "snd (USBPcapGetNodeInformation (unplugged []) 1 3 (StackContents (unplugged [])) boot)"
      and device = 2 and address = None]
  by (simp add: unit_defs bench_defs status_defs)

section \<open>The address resolver\<close>

text \<open>
  What each step does to the reference counts and which calls it adds: only the relation
  query takes a reference, no step releases one, and only the connection query sends a
  port to the hub.
\<close>

lemma pdo_effect:
  assumes "USBPcapGetTargetDevicePdo w dev k = (out, k1)"
  shows "PointerCount k1 =
           (case out of
              Returned s (Some p) \<Rightarrow> (PointerCount k)(p := PointerCount k p + 1)
            | _ \<Rightarrow> PointerCount k) \<and>
         (\<exists>cs. calls k1 = calls k @ cs \<and> releases cs = [] \<and> port_queries cs = [])"
  using assms
  by (auto simp: USBPcapGetTargetDevicePdo_def IoCallDriver_def called_def
      ObReferenceObject_def Let_def split: if_splits option.splits)

lemma pdo_status:
  assumes "USBPcapGetTargetDevicePdo w dev k = (Returned s pdo, k1)"
  shows "NT_SUCCESS s \<longleftrightarrow> pdo \<noteq> None"
  using assms
  by (auto simp: USBPcapGetTargetDevicePdo_def IoCallDriver_def Let_def
      not_success_insufficient_resources option.case_eq_if split: if_splits)

lemma port_effect:
  assumes "USBPcapGetTargetDevicePort w pdo k = (out, k1)"
  shows "PointerCount k1 = PointerCount k \<and>
         (\<exists>cs. calls k1 = calls k @ cs \<and> releases cs = [] \<and> port_queries cs = [])"
  using assms
  by (auto simp: USBPcapGetTargetDevicePort_def called_def ExFreePool_def Let_def
      split: if_splits prod.splits sum.splits)

lemma port_value:
  assumes "USBPcapGetTargetDevicePort w pdo k = (Returned s port, k1)" and "NT_SUCCESS s"
  shows "\<exists>p str. port = Some p \<and> RtlUnicodeStringToInteger w str 0 = (s, p)"
  using assms
  by (auto simp: USBPcapGetTargetDevicePort_def ParsePort_def Let_def
      not_success_invalid_device_request
      split: if_splits prod.splits sum.splits option.splits)

lemma node_effect:
  assumes "USBPcapGetNodeInformation w hub port info k = (out, k1)"
  shows "PointerCount k1 = PointerCount k \<and>
         (\<exists>cs. calls k1 = calls k @ cs \<and> releases cs = [] \<and>
               port_queries cs =
                 (if IoBuildDeviceIoControlRequest w (IOCTL_USB_GET_NODE_CONNECTION_INFORMATION port) hub
                  then [(hub, port)] else []))"
  using assms
  by (auto simp: USBPcapGetNodeInformation_def IoCallDriver_def called_def Let_def
      split: if_splits)

lemma dereference_effect:
  "PointerCount (ObDereferenceObject p k) = (PointerCount k)(p := PointerCount k p - 1) \<and>
   calls (ObDereferenceObject p k) = calls k @ [Dereference p]"
  by (simp add: ObDereferenceObject_def called_def)

text \<open>
  The resolver reads its locals \<^verbatim>\<open>devicePdo\<close> and \<^verbatim>\<open>port\<close> only when they have been
  stored: the only faults of a call are those of its steps.
\<close>

lemma pdo_fault:
  "USBPcapGetTargetDevicePdo w dev k = (Fault f, k1) \<Longrightarrow> f = NullPointer"
  by (auto simp: USBPcapGetTargetDevicePdo_def IoCallDriver_def Let_def
      split: if_splits option.splits)

lemma port_fault:
  "USBPcapGetTargetDevicePort w pdo k = (Fault f, k1) \<Longrightarrow> f \<noteq> Uninitialised"
  by (auto simp: USBPcapGetTargetDevicePort_def ParsePort_def Let_def
      split: if_splits prod.splits sum.splits option.splits)

lemma node_fault:
  "USBPcapGetNodeInformation w hub port info k \<noteq> (Fault f, k1)"
  by (auto simp: USBPcapGetNodeInformation_def IoCallDriver_def Let_def
      split: if_splits option.splits)

lemma locals_initialised:
  "fst (USBPcapGetDeviceUSBAddress w hub device k) \<noteq> Fault Uninitialised"
proof
  assume a: "fst (USBPcapGetDeviceUSBAddress w hub device k) = Fault Uninitialised"
  obtain o1 k1 where s1: "USBPcapGetTargetDevicePdo w device k = (o1, k1)"
    by fastforce
  show False
  proof (cases o1)
    case (Fault f)
    then show ?thesis using a s1 pdo_fault [of w device k f k1]
      by (simp add: USBPcapGetDeviceUSBAddress_def)
  next
    case Blocked
    then show ?thesis using a s1 by (simp add: USBPcapGetDeviceUSBAddress_def)
  next
    case (Returned st1 dp)
    show ?thesis
    proof (cases "NT_SUCCESS st1")
      case False
      then show ?thesis using a s1 Returned by (simp add: USBPcapGetDeviceUSBAddress_def)
    next
      case True
      then obtain pdo where dp: "dp = Some pdo" using pdo_status s1 Returned by blast
      obtain o2 k2 where s2: "USBPcapGetTargetDevicePort w pdo k1 = (o2, k2)"
        by fastforce
      show ?thesis
      proof (cases o2)
        case (Fault f)
        then show ?thesis
          using a s1 s2 Returned dp True port_fault [of w pdo k1 f k2]
          by (simp add: USBPcapGetDeviceUSBAddress_def)
      next
        case Blocked
        then show ?thesis
          using a s1 s2 Returned dp True by (simp add: USBPcapGetDeviceUSBAddress_def)
      next
        case r2: (Returned st2 port2)
        show ?thesis
        proof (cases "NT_SUCCESS st2")
          case False
          then show ?thesis
            using a s1 s2 Returned dp True r2
            by (simp add: USBPcapGetDeviceUSBAddress_def Let_def)
        next
          case ok2: True
          then obtain p where p: "port2 = Some p"
            using port_value s2 r2 by blast
          show ?thesis
            using a s1 s2 Returned dp True r2 ok2 p
              node_fault [of w hub p "StackContents w" "ObDereferenceObject pdo k2" Uninitialised]
            by (auto simp: USBPcapGetDeviceUSBAddress_def Let_def
                split: outcome.splits if_splits prod.splits)
        qed
      qed
    qed
  qed
qed

text \<open>
  The resolver after each of its steps, and a whole run on the bench: the calls it makes,
  in order, for a device at port 3.
\<close>

lemma resolve_pdo_failed:
  assumes "USBPcapGetTargetDevicePdo w device k = (Returned s1 pdo1, k1)" and "\<not> NT_SUCCESS s1"
  shows "USBPcapGetDeviceUSBAddress w hub device k = (Returned s1 None, k1)"
  using assms by (simp add: USBPcapGetDeviceUSBAddress_def)

lemma resolve_port_failed:
  assumes "USBPcapGetTargetDevicePdo w device k = (Returned s1 (Some pdo), k1)" and "NT_SUCCESS s1"
    and "USBPcapGetTargetDevicePort w pdo k1 = (Returned s2 port2, k2)" and "\<not> NT_SUCCESS s2"
  shows "USBPcapGetDeviceUSBAddress w hub device k = (Returned s2 None, ObDereferenceObject pdo k2)"
  using assms by (simp add: USBPcapGetDeviceUSBAddress_def Let_def)

lemma resolve_node:
  assumes "USBPcapGetTargetDevicePdo w device k = (Returned s1 (Some pdo), k1)" and "NT_SUCCESS s1"
    and "USBPcapGetTargetDevicePort w pdo k1 = (Returned s2 (Some port), k2)" and "NT_SUCCESS s2"
    and "USBPcapGetNodeInformation w hub port (StackContents w) (ObDereferenceObject pdo k2) =
           (Returned s3 info, k3)"
  shows "USBPcapGetDeviceUSBAddress w hub device k =
           (Returned s3 (if NT_SUCCESS s3 then Some (DeviceAddress info) else None), k3)"
  using assms by (simp add: USBPcapGetDeviceUSBAddress_def Let_def)

lemma node_result:
  assumes "IoBuildDeviceIoControlRequest w (IOCTL_USB_GET_NODE_CONNECTION_INFORMATION port) hub"
    and "completes (GetNodeConnectionInformation w hub (info\<lparr>ConnectionIndex := port\<rparr>))"
  shows "fst (USBPcapGetNodeInformation w hub port info k) =
           Returned (completion_status (GetNodeConnectionInformation w hub (info\<lparr>ConnectionIndex := port\<rparr>)))
             (Output (GetNodeConnectionInformation w hub (info\<lparr>ConnectionIndex := port\<rparr>)))"
  using assms by (simp add: USBPcapGetNodeInformation_def IoCallDriver_cases Let_def)

lemma bench_run:
  "USBPcapGetDeviceUSBAddress (bench (wide ''Port_#0003.Hub_#0001'')) 1 2 boot =
     (Returned STATUS_SUCCESS (Some 7),
      \<lparr>PointerCount = (\<lambda>p. 1),
       calls = [Dispatch 2 IRP_MN_QUERY_DEVICE_RELATIONS, Wait, PoolFree RelationsList,
                PropertyQuery 3 0 False, PoolAlloc 42, PropertyQuery 3 42 True,
                PoolFree LocationBlock, Dereference 3,
                Dispatch 1 (IOCTL_USB_GET_NODE_CONNECTION_INFORMATION 3)]\<rparr>)"
  by (simp add: unit_defs bench_defs char_defs status_defs converter_defs fun_eq_iff)

text \<open>
  The first two steps in terms of the kernel's answers.
\<close>

lemma pdo_fst:
  "fst (USBPcapGetTargetDevicePdo w device k) =
     (if \<not> IoBuildSynchronousFsdRequest w device
      then Returned STATUS_INSUFFICIENT_RESOURCES None
      else if \<not> completes (QueryDeviceRelations w device) then Blocked
      else if NT_SUCCESS (completion_status (QueryDeviceRelations w device))
      then (case Output (QueryDeviceRelations w device) of
              None \<Rightarrow> Fault NullPointer
            | Some p \<Rightarrow> Returned (completion_status (QueryDeviceRelations w device)) (Some p))
      else Returned (completion_status (QueryDeviceRelations w device)) None)"
  by (simp add: USBPcapGetTargetDevicePdo_def IoCallDriver_cases split: option.splits)

lemma pdo_value:
  "USBPcapGetTargetDevicePdo w device k = (Returned s (Some p), k1) \<Longrightarrow>
   Output (QueryDeviceRelations w device) = Some p"
  by (auto simp: USBPcapGetTargetDevicePdo_def IoCallDriver_def Let_def
      split: if_splits option.splits)

lemma port_first_phase:
  assumes "IoGetDeviceProperty w pdo 0 False = (s0, d0, len)"
    and "s0 \<noteq> STATUS_BUFFER_TOO_SMALL"
  shows "fst (USBPcapGetTargetDevicePort w pdo k) =
           Returned (if NT_SUCCESS s0 then STATUS_INVALID_DEVICE_REQUEST else s0) None"
  using assms by (simp add: USBPcapGetTargetDevicePort_def Let_def)

lemma port_second_phase:
  assumes "IoGetDeviceProperty w pdo 0 False = (STATUS_BUFFER_TOO_SMALL, d0, len)"
    and "ExAllocatePoolWithTag w len"
    and "IoGetDeviceProperty w pdo len True = (s2, data, len')"
    and "block = copy_to data (map (PoolContents w) [0..<unat len div 2])"
  shows "fst (USBPcapGetTargetDevicePort w pdo k) =
           (if \<not> NT_SUCCESS s2 then Returned s2 None
            else if NUL \<in> set block \<and> marker block (unat len') < length block
            then Returned (fst (RtlUnicodeStringToInteger w (blanked block (unat len')) 0))
                   (Some (snd (RtlUnicodeStringToInteger w (blanked block (unat len')) 0)))
            else Fault OutOfBounds)"
  using assms
  by (simp add: USBPcapGetTargetDevicePort_def pool_block_def ParsePort_blanked Let_def
      split: prod.splits)

lemma port_text:
  assumes "USBPcapGetTargetDevicePort w pdo k = (Returned s port2, k1)" and "NT_SUCCESS s"
    and "IoGetDeviceProperty w pdo 0 False = (s0, d0, len)"
    and "IoGetDeviceProperty w pdo len True = (s2, data, len')"
    and "block = copy_to data (map (PoolContents w) [0..<unat len div 2])"
  shows "RtlUnicodeStringToInteger w (blanked block (unat len')) 0 = (s, the port2) \<and>
         port2 \<noteq> None"
proof (cases "ExAllocatePoolWithTag w len")
  case True
  then show ?thesis
    using assms
    by (auto simp: USBPcapGetTargetDevicePort_def pool_block_def ParsePort_blanked Let_def
        not_success_invalid_device_request split: if_splits prod.splits)
next
  case False
  then show ?thesis
    using assms
    by (auto simp: USBPcapGetTargetDevicePort_def pool_block_def ParsePort_null Let_def
        not_success_invalid_device_request split: if_splits prod.splits)
qed

lemma triple: "x = (fst x, fst (snd x), snd (snd x))"
  by simp

text \<open>
  Claim C1. Name the kernel's answers along the call: \<open>rel\<close> the answer to the relation
  query and \<open>pdo\<close> the object it hands out, \<open>s0\<close> and \<open>len\<close> the status and size of the
  first property call, \<open>s2\<close>, \<open>data\<close> and \<open>len'\<close> those of the second, \<open>block\<close> the pool
  block after it (the PDO's location text), \<open>s3\<close> and \<open>port\<close> what the conversion routine
  answers for the blanked counted string of that block, \<open>reply\<close> the hub's answer to the
  connection request for \<open>port\<close>. Then \<^verbatim>\<open>USBPcapGetDeviceUSBAddress\<close> ends at the first
  step that does not succeed, with that step's status and no address: the relation request
  that cannot be built or is refused, the first property call that does not answer
  \<^verbatim>\<open>STATUS_BUFFER_TOO_SMALL\<close>, the second property call that fails, the conversion that
  fails, the connection request that cannot be built or is refused. When every step
  succeeds it returns the status of the connection request and the \<^verbatim>\<open>DeviceAddress\<close> the
  hub reports for \<open>port\<close>. In each case the kernel state is that of the steps run so far,
  each once: \<open>k\<close>, \<open>k1\<close> after the relation query, \<open>k2\<close> after the port query and the
  release, \<open>k3\<close> after the connection query.
\<close>

theorem resolve_address:
  assumes "rel = QueryDeviceRelations w device"
    and "acquired =
           (IoBuildSynchronousFsdRequest w device \<and> completes rel \<and>
            NT_SUCCESS (completion_status rel) \<and> Output rel = Some pdo)"
    and "IoGetDeviceProperty w pdo 0 False = (s0, d0, len)"
    and "IoGetDeviceProperty w pdo len True = (s2, data, len')"
    and "block = copy_to data (map (PoolContents w) [0..<unat len div 2])"
    and "located =
           (s0 = STATUS_BUFFER_TOO_SMALL \<and> ExAllocatePoolWithTag w len \<and> NT_SUCCESS s2 \<and>
            NUL \<in> set block \<and> marker block (unat len') < length block)"
    and "RtlUnicodeStringToInteger w (blanked block (unat len')) 0 = (s3, port)"
    and "built = IoBuildDeviceIoControlRequest w (IOCTL_USB_GET_NODE_CONNECTION_INFORMATION port) hub"
    and "reply = GetNodeConnectionInformation w hub ((StackContents w)\<lparr>ConnectionIndex := port\<rparr>)"
    and "k1 = snd (USBPcapGetTargetDevicePdo w device k)"
    and "k2 = ObDereferenceObject pdo (snd (USBPcapGetTargetDevicePort w pdo k1))"
    and "k3 = snd (USBPcapGetNodeInformation w hub port (StackContents w) k2)"
  shows
    "(\<not> IoBuildSynchronousFsdRequest w device \<longrightarrow>
        USBPcapGetDeviceUSBAddress w hub device k =
          (Returned STATUS_INSUFFICIENT_RESOURCES None, k)) \<and>
     (IoBuildSynchronousFsdRequest w device \<and> completes rel \<and>
      \<not> NT_SUCCESS (completion_status rel) \<longrightarrow>
        USBPcapGetDeviceUSBAddress w hub device k = (Returned (completion_status rel) None, k1)) \<and>
     (acquired \<and> s0 \<noteq> STATUS_BUFFER_TOO_SMALL \<longrightarrow>
        USBPcapGetDeviceUSBAddress w hub device k =
          (Returned (if NT_SUCCESS s0 then STATUS_INVALID_DEVICE_REQUEST else s0) None, k2)) \<and>
     (acquired \<and> s0 = STATUS_BUFFER_TOO_SMALL \<and> ExAllocatePoolWithTag w len \<and>
      \<not> NT_SUCCESS s2 \<longrightarrow>
        USBPcapGetDeviceUSBAddress w hub device k = (Returned s2 None, k2)) \<and>
     (acquired \<and> located \<and> \<not> NT_SUCCESS s3 \<longrightarrow>
        USBPcapGetDeviceUSBAddress w hub device k = (Returned s3 None, k2)) \<and>
     (acquired \<and> located \<and> NT_SUCCESS s3 \<and> \<not> built \<longrightarrow>
        USBPcapGetDeviceUSBAddress w hub device k =
          (Returned STATUS_INSUFFICIENT_RESOURCES None, k3)) \<and>
     (acquired \<and> located \<and> NT_SUCCESS s3 \<and> built \<and> completes reply \<and>
      \<not> NT_SUCCESS (completion_status reply) \<longrightarrow>
        USBPcapGetDeviceUSBAddress w hub device k =
          (Returned (completion_status reply) None, k3)) \<and>
     (acquired \<and> located \<and> NT_SUCCESS s3 \<and> built \<and> completes reply \<and>
      NT_SUCCESS (completion_status reply) \<longrightarrow>
        USBPcapGetDeviceUSBAddress w hub device k =
          (Returned (completion_status reply) (Some (DeviceAddress (Output reply))), k3))"
proof -
  let ?R = "USBPcapGetDeviceUSBAddress w hub device k"
  have pair1: "USBPcapGetTargetDevicePdo w device k =
      (fst (USBPcapGetTargetDevicePdo w device k), k1)"
    using assms(10) by simp
  have pair2: "USBPcapGetTargetDevicePort w pdo k1 =
      (fst (USBPcapGetTargetDevicePort w pdo k1), snd (USBPcapGetTargetDevicePort w pdo k1))"
    by simp
  have pair3: "USBPcapGetNodeInformation w hub port (StackContents w) k2 =
      (fst (USBPcapGetNodeInformation w hub port (StackContents w) k2), k3)"
    using assms(12) by simp
  have unbuilt: "\<not> IoBuildSynchronousFsdRequest w device \<Longrightarrow>
      ?R = (Returned STATUS_INSUFFICIENT_RESOURCES None, k)"
    by (simp add: USBPcapGetDeviceUSBAddress_def USBPcapGetTargetDevicePdo_def
        not_success_insufficient_resources)
  have refused: "IoBuildSynchronousFsdRequest w device \<Longrightarrow> completes rel \<Longrightarrow>
      \<not> NT_SUCCESS (completion_status rel) \<Longrightarrow> ?R = (Returned (completion_status rel) None, k1)"
    using pair1 assms(1) resolve_pdo_failed [of w device k "completion_status rel" None k1 hub]
    by (simp add: pdo_fst)
  have step1: "acquired \<Longrightarrow> USBPcapGetTargetDevicePdo w device k =
      (Returned (completion_status rel) (Some pdo), k1)"
    using pair1 assms(1,2) by (simp add: pdo_fst)
  have port_failed: "acquired \<Longrightarrow> fst (USBPcapGetTargetDevicePort w pdo k1) = Returned s None \<Longrightarrow>
      \<not> NT_SUCCESS s \<Longrightarrow> ?R = (Returned s None, k2)" for s
    using step1 pair2 assms(2,11)
      resolve_port_failed [of w device k "completion_status rel" pdo k1 s None
        "snd (USBPcapGetTargetDevicePort w pdo k1)" hub]
    by simp
  have first: "acquired \<Longrightarrow> s0 \<noteq> STATUS_BUFFER_TOO_SMALL \<Longrightarrow>
      ?R = (Returned (if NT_SUCCESS s0 then STATUS_INVALID_DEVICE_REQUEST else s0) None, k2)"
    using port_failed port_first_phase [OF assms(3), of k1]
    by (simp add: not_success_invalid_device_request)
  have second: "acquired \<Longrightarrow> s0 = STATUS_BUFFER_TOO_SMALL \<Longrightarrow> ExAllocatePoolWithTag w len \<Longrightarrow>
      \<not> NT_SUCCESS s2 \<Longrightarrow> ?R = (Returned s2 None, k2)"
    using port_failed port_second_phase [of w pdo d0 len s2 data len' block k1] assms(3,4,5)
    by simp
  have step2: "located \<Longrightarrow> USBPcapGetTargetDevicePort w pdo k1 =
      (Returned s3 (Some port), snd (USBPcapGetTargetDevicePort w pdo k1))"
    using pair2 port_second_phase [of w pdo d0 len s2 data len' block k1] assms(3,4,5,6,7)
    by simp
  have parse: "acquired \<Longrightarrow> located \<Longrightarrow> \<not> NT_SUCCESS s3 \<Longrightarrow> ?R = (Returned s3 None, k2)"
    using step1 step2 assms(2,11)
      resolve_port_failed [of w device k "completion_status rel" pdo k1 s3 "Some port"
        "snd (USBPcapGetTargetDevicePort w pdo k1)" hub]
    by simp
  have node: "acquired \<Longrightarrow> located \<Longrightarrow> NT_SUCCESS s3 \<Longrightarrow>
      fst (USBPcapGetNodeInformation w hub port (StackContents w) k2) = Returned s info \<Longrightarrow>
      ?R = (Returned s (if NT_SUCCESS s then Some (DeviceAddress info) else None), k3)" for s info
    using step1 step2 pair3 assms(2,11)
      resolve_node [of w device k "completion_status rel" pdo k1 s3 port
        "snd (USBPcapGetTargetDevicePort w pdo k1)" hub s info k3]
    by simp
  have no_request: "acquired \<Longrightarrow> located \<Longrightarrow> NT_SUCCESS s3 \<Longrightarrow> \<not> built \<Longrightarrow>
      ?R = (Returned STATUS_INSUFFICIENT_RESOURCES None, k3)"
    using node [of STATUS_INSUFFICIENT_RESOURCES "(StackContents w)\<lparr>ConnectionIndex := port\<rparr>"]
      assms(8)
    by (simp add: USBPcapGetNodeInformation_def not_success_insufficient_resources)
  have answered: "acquired \<Longrightarrow> located \<Longrightarrow> NT_SUCCESS s3 \<Longrightarrow> built \<Longrightarrow> completes reply \<Longrightarrow>
      ?R = (Returned (completion_status reply)
              (if NT_SUCCESS (completion_status reply) then Some (DeviceAddress (Output reply))
               else None), k3)"
    using node [of "completion_status reply" "Output reply"] assms(8,9)
      node_result [where w = w and hub = hub and info = "StackContents w" and port = port
        and k = k2]
    by simp
  show ?thesis
    using unbuilt refused first second parse no_request answered by simp
qed

theorem resolve_address_witness:
  "USBPcapGetDeviceUSBAddress exhausted 1 2 boot =
     (Returned STATUS_INSUFFICIENT_RESOURCES None, boot) \<and>
   fst (USBPcapGetDeviceUSBAddress detached 1 2 boot) =
     Returned STATUS_NOT_SUPPORTED None \<and>
   fst (USBPcapGetDeviceUSBAddress refusing 1 2 boot) =
     Returned STATUS_NOT_SUPPORTED None \<and>
   fst (USBPcapGetDeviceUSBAddress anomalous 1 2 boot) =
     Returned STATUS_INVALID_DEVICE_REQUEST None \<and>
   fst (USBPcapGetDeviceUSBAddress vanishing 1 2 boot) =
     Returned STATUS_NOT_SUPPORTED None \<and>
   fst (USBPcapGetDeviceUSBAddress (illiterate (wide ''Port_#0003.Hub_#0001'')) 1 2 boot) =
     Returned STATUS_INVALID_PARAMETER None \<and>
   fst (USBPcapGetDeviceUSBAddress (drained (wide ''Port_#0003.Hub_#0001'')) 1 2 boot) =
     Returned STATUS_INSUFFICIENT_RESOURCES None \<and>
   fst (USBPcapGetDeviceUSBAddress (unplugged (wide ''Port_#0003.Hub_#0001'')) 1 2 boot) =
     Returned STATUS_NOT_SUPPORTED None \<and>
   fst (USBPcapGetDeviceUSBAddress (bench (wide ''Port_#0003.Hub_#0001'')) 1 2 boot) =
     Returned STATUS_SUCCESS (Some 7)"
proof -
  have unbuilt: "USBPcapGetDeviceUSBAddress exhausted 1 2 boot =
      (Returned STATUS_INSUFFICIENT_RESOURCES None, boot)"
    using resolve_address [where w = exhausted and hub = 1 and device = 2 and k = boot and pdo = 3,
        OF refl refl triple triple refl refl surjective_pairing refl refl refl refl refl]
    by (simp add: unit_defs bench_defs char_defs status_defs converter_defs text_defs
        completes_def completion_status_def)
  have refused: "fst (USBPcapGetDeviceUSBAddress detached 1 2 boot) =
      Returned STATUS_NOT_SUPPORTED None"
    using resolve_address [where w = detached and hub = 1 and device = 2 and k = boot and pdo = 3,
        OF refl refl triple triple refl refl surjective_pairing refl refl refl refl refl]
    by (simp add: unit_defs bench_defs char_defs status_defs converter_defs text_defs
        completes_def completion_status_def)
  have first: "fst (USBPcapGetDeviceUSBAddress refusing 1 2 boot) =
      Returned STATUS_NOT_SUPPORTED None"
    using resolve_address [where w = refusing and hub = 1 and device = 2 and k = boot and pdo = 3,
        OF refl refl triple triple refl refl surjective_pairing refl refl refl refl refl]
    by (simp add: unit_defs bench_defs char_defs status_defs converter_defs text_defs
        completes_def completion_status_def)
  have anomaly: "fst (USBPcapGetDeviceUSBAddress anomalous 1 2 boot) =
      Returned STATUS_INVALID_DEVICE_REQUEST None"
    using resolve_address [where w = anomalous and hub = 1 and device = 2 and k = boot and pdo = 3,
        OF refl refl triple triple refl refl surjective_pairing refl refl refl refl refl]
    by (simp add: unit_defs bench_defs char_defs status_defs converter_defs text_defs
        completes_def completion_status_def)
  have second: "fst (USBPcapGetDeviceUSBAddress vanishing 1 2 boot) =
      Returned STATUS_NOT_SUPPORTED None"
    using resolve_address [where w = vanishing and hub = 1 and device = 2 and k = boot and pdo = 3,
        OF refl refl triple triple refl refl surjective_pairing refl refl refl refl refl]
    by (simp add: unit_defs bench_defs char_defs status_defs converter_defs text_defs
        completes_def completion_status_def)
  have parse: "fst (USBPcapGetDeviceUSBAddress (illiterate (wide ''Port_#0003.Hub_#0001'')) 1 2 boot) =
      Returned STATUS_INVALID_PARAMETER None"
    using resolve_address [where w = "illiterate (wide ''Port_#0003.Hub_#0001'')" and hub = 1 and device = 2 and k = boot and pdo = 3,
        OF refl refl triple triple refl refl surjective_pairing refl refl refl refl refl]
    by (simp add: unit_defs bench_defs char_defs status_defs converter_defs text_defs
        completes_def completion_status_def)
  have no_request: "fst (USBPcapGetDeviceUSBAddress (drained (wide ''Port_#0003.Hub_#0001'')) 1 2 boot) =
      Returned STATUS_INSUFFICIENT_RESOURCES None"
    using resolve_address [where w = "drained (wide ''Port_#0003.Hub_#0001'')" and hub = 1 and device = 2 and k = boot and pdo = 3,
        OF refl refl triple triple refl refl surjective_pairing refl refl refl refl refl]
    by (simp add: unit_defs bench_defs char_defs status_defs converter_defs text_defs
        completes_def completion_status_def)
  have hub_failed: "fst (USBPcapGetDeviceUSBAddress (unplugged (wide ''Port_#0003.Hub_#0001'')) 1 2 boot) =
      Returned STATUS_NOT_SUPPORTED None"
    using resolve_address [where w = "unplugged (wide ''Port_#0003.Hub_#0001'')" and hub = 1 and device = 2 and k = boot and pdo = 3,
        OF refl refl triple triple refl refl surjective_pairing refl refl refl refl refl]
    by (simp add: unit_defs bench_defs char_defs status_defs converter_defs text_defs
        completes_def completion_status_def)
  have resolved: "fst (USBPcapGetDeviceUSBAddress (bench (wide ''Port_#0003.Hub_#0001'')) 1 2 boot) =
      Returned STATUS_SUCCESS (Some 7)"
    using resolve_address [where w = "bench (wide ''Port_#0003.Hub_#0001'')" and hub = 1 and device = 2 and k = boot and pdo = 3,
        OF refl refl triple triple refl refl surjective_pairing refl refl refl refl refl]
    by (simp add: unit_defs bench_defs char_defs status_defs converter_defs text_defs
        completes_def completion_status_def)
  show ?thesis
    using unbuilt refused first anomaly second parse no_request hub_failed resolved
    by (simp only: simp_thms)
qed

text \<open>
  Claim C2. Whenever \<^verbatim>\<open>USBPcapGetDeviceUSBAddress\<close> returns, with whatever status, every
  reference count is what it was before the call, and the objects released during the
  call are exactly the device object the relation query handed out, once, or none when
  the query handed out none.
\<close>

theorem pdo_reference_balanced:
  assumes run: "USBPcapGetDeviceUSBAddress w hub device k = (Returned status address, k')"
  shows "PointerCount k' = PointerCount k \<and>
         releases (new_calls k k') =
           (case fst (USBPcapGetTargetDevicePdo w device k) of
              Returned s (Some pdo) \<Rightarrow> [pdo]
            | _ \<Rightarrow> [])"
proof -
  obtain o1 k1 where s1: "USBPcapGetTargetDevicePdo w device k = (o1, k1)"
    by fastforce
  from pdo_effect [OF s1] obtain cs1 where e1:
    "PointerCount k1 = (case o1 of Returned s (Some p) \<Rightarrow> (PointerCount k)(p := PointerCount k p + 1)
                        | _ \<Rightarrow> PointerCount k)"
    "calls k1 = calls k @ cs1" "releases cs1 = []"
    by blast
  show ?thesis
  proof (cases o1)
    case (Fault f)
    then show ?thesis using run s1 by (simp add: USBPcapGetDeviceUSBAddress_def)
  next
    case Blocked
    then show ?thesis using run s1 by (simp add: USBPcapGetDeviceUSBAddress_def)
  next
    case (Returned st1 dp)
    show ?thesis
    proof (cases "NT_SUCCESS st1")
      case False
      then have "dp = None" using pdo_status s1 Returned by blast
      moreover have "k' = k1"
        using run s1 Returned False by (simp add: USBPcapGetDeviceUSBAddress_def)
      ultimately show ?thesis
        using e1 s1 Returned by (simp add: new_calls_append)
    next
      case True
      then obtain pdo where dp: "dp = Some pdo" using pdo_status s1 Returned by blast
      obtain o2 k2 where s2: "USBPcapGetTargetDevicePort w pdo k1 = (o2, k2)"
        by fastforce
      from port_effect [OF s2] obtain cs2 where e2:
        "PointerCount k2 = PointerCount k1" "calls k2 = calls k1 @ cs2" "releases cs2 = []"
        by blast
      let ?k3 = "ObDereferenceObject pdo k2"
      have e3: "PointerCount ?k3 = PointerCount k"
        "calls ?k3 = calls k @ (cs1 @ cs2 @ [Dereference pdo])"
        using e1 e2 Returned dp by (auto simp: dereference_effect)
      have rel3: "releases (cs1 @ cs2 @ [Dereference pdo]) = [pdo]"
        using e1 e2 by (simp add: releases_append)
      show ?thesis
      proof (cases o2)
        case (Fault f)
        then show ?thesis
          using run s1 s2 Returned dp True by (simp add: USBPcapGetDeviceUSBAddress_def)
      next
        case Blocked
        then show ?thesis
          using run s1 s2 Returned dp True by (simp add: USBPcapGetDeviceUSBAddress_def)
      next
        case r2: (Returned st2 port2)
        show ?thesis
        proof (cases "NT_SUCCESS st2")
          case False
          then have "k' = ?k3"
            using run s1 s2 Returned dp True r2
            by (simp add: USBPcapGetDeviceUSBAddress_def Let_def)
          then show ?thesis
            using e3 rel3 s1 Returned dp by (simp add: new_calls_append)
        next
          case ok2: True
          then obtain port where p: "port2 = Some port"
            using port_value s2 r2 by blast
          obtain o3 k4 where s3:
            "USBPcapGetNodeInformation w hub port (StackContents w) ?k3 = (o3, k4)"
            by fastforce
          from node_effect [OF s3] obtain cs3 where e4:
            "PointerCount k4 = PointerCount ?k3" "calls k4 = calls ?k3 @ cs3" "releases cs3 = []"
            by blast
          have "k' = k4"
            using run s1 s2 s3 Returned dp True r2 ok2 p
            by (auto simp: USBPcapGetDeviceUSBAddress_def Let_def split: outcome.splits if_splits)
          moreover have "calls k4 = calls k @ ((cs1 @ cs2 @ [Dereference pdo]) @ cs3)"
            using e3 e4 by simp
          moreover have "releases ((cs1 @ cs2 @ [Dereference pdo]) @ cs3) = [pdo]"
            using rel3 e4 by (simp only: releases_append) simp
          ultimately show ?thesis
            using e3 e4 s1 Returned dp by (simp add: new_calls_append)
        qed
      qed
    qed
  qed
qed

theorem pdo_reference_balanced_witness:
  "PointerCount (snd (USBPcapGetDeviceUSBAddress (bench (wide ''Port_#0003.Hub_#0001'')) 1 2 boot)) =
     PointerCount boot \<and>
   releases (new_calls boot
     (snd (USBPcapGetDeviceUSBAddress (bench (wide ''Port_#0003.Hub_#0001'')) 1 2 boot))) = [3] \<and>
   PointerCount (snd (USBPcapGetDeviceUSBAddress refusing 1 2 boot)) = PointerCount boot \<and>
   releases (new_calls boot (snd (USBPcapGetDeviceUSBAddress refusing 1 2 boot))) = [3] \<and>
   releases (new_calls boot (snd (USBPcapGetDeviceUSBAddress exhausted 1 2 boot))) = []"
  using pdo_reference_balanced [of "bench (wide ''Port_#0003.Hub_#0001'')" 1 2 boot
      STATUS_SUCCESS "Some 7"
      "snd (USBPcapGetDeviceUSBAddress (bench (wide ''Port_#0003.Hub_#0001'')) 1 2 boot)"]
    pdo_reference_balanced [of refusing 1 2 boot STATUS_NOT_SUPPORTED None
      "snd (USBPcapGetDeviceUSBAddress refusing 1 2 boot)"]
    pdo_reference_balanced [of exhausted 1 2 boot STATUS_INSUFFICIENT_RESOURCES None
      "snd (USBPcapGetDeviceUSBAddress exhausted 1 2 boot)"]
  by (simp add: unit_defs bench_defs char_defs status_defs converter_defs new_calls_def fun_eq_iff)

text \<open>
  On the bench, resolving a device whose location text is \<^verbatim>\<open>Port_#0000.Hub_#0001\<close>
  reaches the hub, and the one connection query of the call asks it for port 0.
\<close>

theorem port_index_zero_counterexample:
  "port_queries (new_calls boot
     (snd (USBPcapGetDeviceUSBAddress (bench (wide ''Port_#0000.Hub_#0001'')) 1 2 boot))) =
     [(1, 0)]"
  by (simp add: unit_defs bench_defs char_defs status_defs converter_defs new_calls_def)

text \<open>
  Claim C8, amended. When a call of \<^verbatim>\<open>USBPcapGetDeviceUSBAddress\<close> reaches the connection
  query, it sends exactly one, to the hub it was given, and the port index in it is the
  value the conversion routine stored, with a success status, for the blanked counted
  string of the PDO's location block: the text the second property call left in the pool
  block, with every cell up to and including the first \<^verbatim>\<open>#\<close> blank (up to cell
  \<^verbatim>\<open>length\<close> when no \<^verbatim>\<open>#\<close> comes before it). The unit compares the index with nothing,
  so an index of 0 is passed on as it is.
\<close>

theorem port_index_unchecked:
  assumes run: "USBPcapGetDeviceUSBAddress w hub device k = (out, k')"
    and reached: "port_queries (new_calls k k') \<noteq> []"
    and handed: "Output (QueryDeviceRelations w device) = Some pdo"
    and probe: "IoGetDeviceProperty w pdo 0 False = (s0, d0, len)"
    and fill: "IoGetDeviceProperty w pdo len True = (s2, data, len')"
    and block: "block = copy_to data (map (PoolContents w) [0..<unat len div 2])"
    and conv: "RtlUnicodeStringToInteger w (blanked block (unat len')) 0 = (s3, port)"
  shows "port_queries (new_calls k k') = [(hub, port)] \<and> NT_SUCCESS s3"
proof -
  obtain o1 k1 where s1: "USBPcapGetTargetDevicePdo w device k = (o1, k1)"
    by fastforce
  from pdo_effect [OF s1] obtain cs1 where e1:
    "calls k1 = calls k @ cs1" "port_queries cs1 = []"
    by blast
  have stop1: "k' = k1 \<Longrightarrow> False"
    using e1 reached by (simp add: new_calls_append)
  show ?thesis
  proof (cases o1)
    case (Fault f)
    then show ?thesis using run s1 stop1 by (simp add: USBPcapGetDeviceUSBAddress_def)
  next
    case Blocked
    then show ?thesis using run s1 stop1 by (simp add: USBPcapGetDeviceUSBAddress_def)
  next
    case (Returned st1 dp)
    show ?thesis
    proof (cases "NT_SUCCESS st1")
      case False
      then show ?thesis
        using run s1 Returned stop1 by (simp add: USBPcapGetDeviceUSBAddress_def)
    next
      case True
      then obtain pdo' where "dp = Some pdo'" using pdo_status s1 Returned by blast
      then have dp: "dp = Some pdo" using pdo_value s1 Returned handed by fastforce
      obtain o2 k2 where s2: "USBPcapGetTargetDevicePort w pdo k1 = (o2, k2)"
        by fastforce
      from port_effect [OF s2] obtain cs2 where e2:
        "calls k2 = calls k1 @ cs2" "port_queries cs2 = []"
        by blast
      let ?k3 = "ObDereferenceObject pdo k2"
      have e3: "calls ?k3 = calls k @ (cs1 @ cs2 @ [Dereference pdo])"
        using e1 e2 by (simp add: dereference_effect)
      have q3: "port_queries (cs1 @ cs2 @ [Dereference pdo]) = []"
        using e1 e2 by (simp add: port_queries_append)
      have stop2: "k' = k2 \<Longrightarrow> False"
        using e1 e2 reached by (simp add: new_calls_append port_queries_append)
      have stop3: "k' = ?k3 \<Longrightarrow> False"
        using e3 q3 reached by (simp add: new_calls_append)
      show ?thesis
      proof (cases o2)
        case (Fault f)
        then show ?thesis
          using run s1 s2 Returned dp True stop2 by (simp add: USBPcapGetDeviceUSBAddress_def)
      next
        case Blocked
        then show ?thesis
          using run s1 s2 Returned dp True stop2 by (simp add: USBPcapGetDeviceUSBAddress_def)
      next
        case r2: (Returned st2 port2)
        show ?thesis
        proof (cases "NT_SUCCESS st2")
          case False
          then show ?thesis
            using run s1 s2 Returned dp True r2 stop3
            by (simp add: USBPcapGetDeviceUSBAddress_def Let_def)
        next
          case ok2: True
          have "RtlUnicodeStringToInteger w (blanked block (unat len')) 0 = (st2, the port2) \<and>
              port2 \<noteq> None"
            using s2 r2 ok2 probe fill block by (intro port_text) auto
          then have p: "port2 = Some port" and st2: "st2 = s3"
            using conv by auto
          obtain o3 k4 where s3:
            "USBPcapGetNodeInformation w hub port (StackContents w) ?k3 = (o3, k4)"
            by fastforce
          from node_effect [OF s3] obtain cs3 where e4:
            "calls k4 = calls ?k3 @ cs3"
            "port_queries cs3 =
               (if IoBuildDeviceIoControlRequest w (IOCTL_USB_GET_NODE_CONNECTION_INFORMATION port) hub
                then [(hub, port)] else [])"
            by blast
          have "k' = k4"
            using run s1 s2 s3 Returned dp True r2 ok2 p
            by (auto simp: USBPcapGetDeviceUSBAddress_def Let_def split: outcome.splits if_splits)
          moreover have "calls k4 = calls k @ ((cs1 @ cs2 @ [Dereference pdo]) @ cs3)"
            using e3 e4 by simp
          moreover have "port_queries ((cs1 @ cs2 @ [Dereference pdo]) @ cs3) = port_queries cs3"
            using q3 by (simp only: port_queries_append) simp
          ultimately have "port_queries (new_calls k k') = port_queries cs3"
            by (simp add: new_calls_append)
          then have "port_queries (new_calls k k') = [(hub, port)]"
            using e4 reached by (simp split: if_splits)
          then show ?thesis using ok2 st2 by simp
        qed
      qed
    qed
  qed
qed

theorem port_index_unchecked_witness:
  "port_queries (new_calls boot
     (snd (USBPcapGetDeviceUSBAddress (bench (wide ''Port_#0003.Hub_#0001'')) 1 2 boot))) =
     [(1, 3)] \<and>
   blanked (wide ''Port_#0003.Hub_#0001'' @ [NUL]) 42 = wide ''      0003.Hub_#0001''"
  using port_index_unchecked [where w = "bench (wide ''Port_#0003.Hub_#0001'')" and hub = 1
      and device = 2 and k = boot and pdo = 3, OF surjective_pairing _ _ triple triple refl
      surjective_pairing]
  by (simp add: unit_defs bench_defs char_defs status_defs converter_defs new_calls_def text_defs)

end
